theory Spec2Isabelle
  imports Main "HOL-Library.Word"
begin

section \<open>JavaScript strings\<close>

text \<open>
  A JavaScript string is a sequence of UTF-16 code units; \<open>length\<close>, \<open>slice\<close> and the
  regular expression class \<open>\s\<close> all work on code units. \<open>asc\<close> embeds an ASCII literal.
\<close>

type_synonym uchar = "16 word"
type_synonym jsstring = "uchar list"

definition asc :: "string \<Rightarrow> jsstring" where
  "asc s = map of_char s"

definition CR :: uchar where "CR = 13"
definition LF :: uchar where "LF = 10"
definition SP :: uchar where "SP = 32"

definition CRLF :: jsstring where
  "CRLF = [CR, LF]"

text \<open>\<open>Array.prototype.join\<close> on an array of strings.\<close>

fun join :: "jsstring \<Rightarrow> jsstring list \<Rightarrow> jsstring" where
  "join sep [] = []"
| "join sep [x] = x"
| "join sep (x # y # ys) = x @ sep @ join sep (y # ys)"

text \<open>
  The white space of \<open>\s\<close> and of \<open>String.prototype.trim\<close>: WhiteSpace and LineTerminator
  of the language standard.
\<close>

definition isSpace :: "uchar \<Rightarrow> bool" where
  "isSpace c \<longleftrightarrow>
     c = 0x09 \<or> c = 0x0A \<or> c = 0x0B \<or> c = 0x0C \<or> c = 0x0D \<or> c = 0x20 \<or> c = 0xA0 \<or>
     c = 0x1680 \<or> (0x2000 \<le> c \<and> c \<le> 0x200A) \<or> c = 0x2028 \<or> c = 0x2029 \<or>
     c = 0x202F \<or> c = 0x205F \<or> c = 0x3000 \<or> c = 0xFEFF"

text \<open>\<open>s.replace(/\s+/g, ' ')\<close>: every maximal run of white space becomes one space.\<close>

function collapseWs :: "jsstring \<Rightarrow> jsstring" where
  "collapseWs [] = []"
| "collapseWs (c # cs) =
     (if isSpace c then SP # collapseWs (dropWhile isSpace cs) else c # collapseWs cs)"
  by pat_completeness auto
termination
  by (relation "measure length") (auto simp: length_dropWhile_le less_Suc_eq_le)

text \<open>\<open>s.trim()\<close>.\<close>

definition trim :: "jsstring \<Rightarrow> jsstring" where
  "trim s = rev (dropWhile isSpace (rev (dropWhile isSpace s)))"

text \<open>\<open>s || null\<close> for a string \<open>s\<close>: the empty string is falsy.\<close>

definition orNull :: "jsstring \<Rightarrow> jsstring option" where
  "orNull s = (if s = [] then None else Some s)"

section \<open>The ingestion payload\<close>

text \<open>
  The value \<open>request.json()\<close> yields. How a number prints and whether it is zero is the
  language's floating point; both are parameters (\<open>numberToString\<close>, \<open>numberIsZero\<close>).
\<close>

datatype 'n json =
    JNull
  | JBool bool
  | JNum 'n
  | JStr jsstring
  | JArr "'n json list"
  | JObj "(jsstring \<times> 'n json) list"

text \<open>
  The collaborators of the receiver that live in other modules: the address normaliser,
  the markup stripper, the code extractor (\<open>None\<close> when it throws) and the mailbox
  resolver (\<open>None\<close> when it throws).
\<close>

record 'n collab =
  extractEmail :: "jsstring \<Rightarrow> jsstring"
  stripHtml :: "jsstring \<Rightarrow> jsstring"
  extractVerificationCode :: "jsstring \<Rightarrow> jsstring \<Rightarrow> jsstring \<Rightarrow> jsstring option"
  getOrCreateMailboxId :: "jsstring \<Rightarrow> int option"
  numberToString :: "'n \<Rightarrow> jsstring"
  numberIsZero :: "'n \<Rightarrow> bool"

text \<open>\<open>emailData?.key\<close>: \<open>None\<close> is \<open>undefined\<close>. In an object the last binding of a key wins.\<close>

fun lookupLast :: "jsstring \<Rightarrow> (jsstring \<times> 'n json) list \<Rightarrow> 'n json option" where
  "lookupLast k [] = None"
| "lookupLast k ((k', v) # kvs) =
     (case lookupLast k kvs of Some w \<Rightarrow> Some w | None \<Rightarrow> (if k' = k then Some v else None))"

fun getField :: "'n json \<Rightarrow> jsstring \<Rightarrow> 'n json option" where
  "getField (JObj kvs) k = lookupLast k kvs"
| "getField _ k = None"

text \<open>Truthiness.\<close>

fun truthy :: "('n, 'x) collab_scheme \<Rightarrow> 'n json \<Rightarrow> bool" where
  "truthy env JNull = False"
| "truthy env (JBool b) = b"
| "truthy env (JNum n) = (\<not> numberIsZero env n)"
| "truthy env (JStr s) = (s \<noteq> [])"
| "truthy env (JArr xs) = True"
| "truthy env (JObj kvs) = True"

text \<open>An object has an own property of that name.\<close>

definition hasKey :: "jsstring \<Rightarrow> (jsstring \<times> 'n json) list \<Rightarrow> bool" where
  "hasKey k kvs \<longleftrightarrow> k \<in> set (map fst kvs)"

text \<open>
  \<open>String(v)\<close>; \<open>None\<close> is the TypeError it throws. An object converts through its
  \<open>toString\<close> and then its \<open>valueOf\<close> method. A parsed object inherits both; an own
  property \<open>toString\<close> hides the inherited one and is never a function, the inherited
  (or an own) \<open>valueOf\<close> gives no primitive, and the conversion throws. An array is the
  join of its elements by a comma, with \<open>null\<close> as the empty string, and throws when
  the conversion of an element throws.
\<close>

fun toString :: "('n, 'x) collab_scheme \<Rightarrow> 'n json \<Rightarrow> jsstring option" where
  "toString env JNull = Some (asc ''null'')"
| "toString env (JBool b) = Some (if b then asc ''true'' else asc ''false'')"
| "toString env (JNum n) = Some (numberToString env n)"
| "toString env (JStr s) = Some s"
| "toString env (JArr xs) =
     map_option (join (asc '',''))
       (those (map (\<lambda>x. if x = JNull then Some [] else toString env x) xs))"
| "toString env (JObj kvs) =
     (if hasKey (asc ''toString'') kvs then None else Some (asc ''[object Object]''))"

text \<open>\<open>String(v || d)\<close> for a string default \<open>d\<close>; \<open>None\<close> when the conversion throws.\<close>

definition stringOr ::
  "('n, 'x) collab_scheme \<Rightarrow> 'n json option \<Rightarrow> jsstring \<Rightarrow> jsstring option"
where
  "stringOr env v d =
     (case v of None \<Rightarrow> Some d | Some j \<Rightarrow> (if truthy env j then toString env j else Some d))"

text \<open>The placeholder subject: an opening parenthesis, U+65E0 U+4E3B U+9898, a closing one.\<close>

definition noSubject :: jsstring where
  "noSubject = [0x28, 0x65E0, 0x4E3B, 0x9898, 0x29]"

section \<open>The envelope builder\<close>

text \<open>
  The two array literals of \<open>handleEmailReceive\<close>. The date string and the boundary come
  from the clock and the random source and are arguments here.
\<close>

definition emlLines ::
  "jsstring \<Rightarrow> jsstring \<Rightarrow> jsstring \<Rightarrow> jsstring \<Rightarrow> jsstring \<Rightarrow> jsstring \<Rightarrow> jsstring \<Rightarrow> jsstring list"
where
  \<open>emlLines sender mailbox subject dateStr boundary text html =
     (if html \<noteq> [] then
        [ asc ''From: <'' @ sender @ asc ''>'',
          asc ''To: <'' @ mailbox @ asc ''>'',
          asc ''Subject: '' @ subject,
          asc ''Date: '' @ dateStr,
          asc ''MIME-Version: 1.0'',
          asc ''Content-Type: multipart/alternative; boundary="'' @ boundary @ asc ''"'',
          [],
          asc ''--'' @ boundary,
          asc ''Content-Type: text/plain; charset="utf-8"'',
          asc ''Content-Transfer-Encoding: 8bit'',
          [],
          text,
          asc ''--'' @ boundary,
          asc ''Content-Type: text/html; charset="utf-8"'',
          asc ''Content-Transfer-Encoding: 8bit'',
          [],
          html,
          asc ''--'' @ boundary @ asc ''--'',
          [] ]
      else
        [ asc ''From: <'' @ sender @ asc ''>'',
          asc ''To: <'' @ mailbox @ asc ''>'',
          asc ''Subject: '' @ subject,
          asc ''Date: '' @ dateStr,
          asc ''MIME-Version: 1.0'',
          asc ''Content-Type: text/plain; charset="utf-8"'',
          asc ''Content-Transfer-Encoding: 8bit'',
          [],
          text,
          [] ])\<close>

definition buildEml ::
  "jsstring \<Rightarrow> jsstring \<Rightarrow> jsstring \<Rightarrow> jsstring \<Rightarrow> jsstring \<Rightarrow> jsstring \<Rightarrow> jsstring \<Rightarrow> jsstring"
where
  "buildEml sender mailbox subject dateStr boundary text html =
     join CRLF (emlLines sender mailbox subject dateStr boundary text html)"

section \<open>The receiver\<close>

record message =
  mailbox_id :: int
  sender :: jsstring
  to_addrs :: jsstring
  subject :: jsstring
  verification_code :: "jsstring option"
  preview :: "jsstring option"
  eml_content :: "jsstring option"

text \<open>The preview: \<open>(text || stripHtml(html)).replace(/\s+/g, ' ').trim()\<close>, then \<open>slice(0, 120)\<close>.\<close>

definition previewOf :: "('n, 'x) collab_scheme \<Rightarrow> jsstring \<Rightarrow> jsstring \<Rightarrow> jsstring" where
  "previewOf env text html =
     (let previewBase = trim (collapseWs (if text \<noteq> [] then text else stripHtml env html))
      in take 120 previewBase)"

text \<open>\<open>try { verificationCode = extractVerificationCode({subject, text, html}) } catch (_) { }\<close>\<close>

definition codeOf :: "('n, 'x) collab_scheme \<Rightarrow> jsstring \<Rightarrow> jsstring \<Rightarrow> jsstring \<Rightarrow> jsstring" where
  "codeOf env subj text html =
     (case extractVerificationCode env subj text html of None \<Rightarrow> [] | Some c \<Rightarrow> c)"

datatype receive_error = ProcessingFailed

text \<open>
  The five fields read from the payload:
  \<open>String(emailData?.to || '')\<close>, ..., \<open>String(emailData?.subject || '(...)')\<close>.
  Each is \<open>None\<close> when its conversion throws.
\<close>

definition toOf :: "('n, 'x) collab_scheme \<Rightarrow> 'n json \<Rightarrow> jsstring option" where
  "toOf env emailData = stringOr env (getField emailData (asc ''to'')) []"

definition fromOf :: "('n, 'x) collab_scheme \<Rightarrow> 'n json \<Rightarrow> jsstring option" where
  "fromOf env emailData = stringOr env (getField emailData (asc ''from'')) []"

definition subjectOf :: "('n, 'x) collab_scheme \<Rightarrow> 'n json \<Rightarrow> jsstring option" where
  "subjectOf env emailData = stringOr env (getField emailData (asc ''subject'')) noSubject"

definition textOf :: "('n, 'x) collab_scheme \<Rightarrow> 'n json \<Rightarrow> jsstring option" where
  "textOf env emailData = stringOr env (getField emailData (asc ''text'')) []"

definition htmlOf :: "('n, 'x) collab_scheme \<Rightarrow> 'n json \<Rightarrow> jsstring option" where
  "htmlOf env emailData = stringOr env (getField emailData (asc ''html'')) []"

text \<open>The five fields together; \<open>None\<close> when one of the conversions throws.\<close>

definition fieldsOf ::
  "('n, 'x) collab_scheme \<Rightarrow> 'n json \<Rightarrow>
   (jsstring \<times> jsstring \<times> jsstring \<times> jsstring \<times> jsstring) option"
where
  "fieldsOf env emailData =
     (case (toOf env emailData, fromOf env emailData, subjectOf env emailData,
            textOf env emailData, htmlOf env emailData) of
        (Some to, Some from, Some subj, Some text, Some html) \<Rightarrow>
          Some (to, from, subj, text, html)
      | _ \<Rightarrow> None)"

text \<open>The values bound into the INSERT statement, for the five fields and a mailbox id.\<close>

definition receiveRow ::
  "('n, 'x) collab_scheme \<Rightarrow> jsstring \<Rightarrow> jsstring \<Rightarrow>
   jsstring \<times> jsstring \<times> jsstring \<times> jsstring \<times> jsstring \<Rightarrow> int \<Rightarrow> message"
where
  "receiveRow env dateStr boundary flds mailboxId =
     (case flds of (to, from, subj, text, html) \<Rightarrow>
       (let mailbox = extractEmail env to;
            sndr = extractEmail env from;
            eml = buildEml sndr mailbox subj dateStr boundary text html;
            pv = previewOf env text html;
            verificationCode = codeOf env subj text html
        in \<lparr> mailbox_id = mailboxId,
             sender = sndr,
             to_addrs = to,
             subject = (if subj \<noteq> [] then subj else noSubject),
             verification_code = orNull verificationCode,
             preview = orNull pv,
             eml_content = orNull eml \<rparr>))"

text \<open>
  \<open>handleEmailReceive\<close>: the row it inserts, or the 500 response of the outer \<open>catch\<close>
  when a conversion of a field or the mailbox resolver throws. Both come before the
  envelope is built, and nothing is inserted then.
\<close>

definition handleEmailReceive ::
  "('n, 'x) collab_scheme \<Rightarrow> jsstring \<Rightarrow> jsstring \<Rightarrow> 'n json \<Rightarrow> receive_error + message"
where
  "handleEmailReceive env dateStr boundary emailData =
     (case fieldsOf env emailData of
        None \<Rightarrow> Inl ProcessingFailed
      | Some flds \<Rightarrow>
          (case getOrCreateMailboxId env (extractEmail env (fst flds)) of
             None \<Rightarrow> Inl ProcessingFailed
           | Some mailboxId \<Rightarrow> Inr (receiveRow env dateStr boundary flds mailboxId)))"

text \<open>A payload field is missing or falsy.\<close>

definition absentOrFalsy :: "('n, 'x) collab_scheme \<Rightarrow> 'n json \<Rightarrow> jsstring \<Rightarrow> bool" where
  "absentOrFalsy env emailData k =
     (case getField emailData k of None \<Rightarrow> True | Some v \<Rightarrow> \<not> truthy env v)"

text \<open>
  The values whose conversion to a string does not throw: not an object with an own
  property \<open>toString\<close>, and not an array that holds one, at any depth.
\<close>

fun convertible :: "'n json \<Rightarrow> bool" where
  "convertible (JArr xs) = list_all convertible xs"
| "convertible (JObj kvs) = (\<not> hasKey (asc ''toString'') kvs)"
| "convertible _ = True"

text \<open>
  Every white space character of a string is a space, and no two of them are adjacent.
\<close>

fun singleSpaced :: "jsstring \<Rightarrow> bool" where
  "singleSpaced [] = True"
| "singleSpaced [c] = (isSpace c \<longrightarrow> c = SP)"
| "singleSpaced (c # d # cs) =
     ((isSpace c \<longrightarrow> c = SP \<and> \<not> isSpace d) \<and> singleSpaced (d # cs))"

text \<open>
  Every CR of a string is followed by LF and every LF is preceded by CR: the only line
  break in it is CRLF.
\<close>

fun crlfOnly :: "jsstring \<Rightarrow> bool" where
  "crlfOnly [] = True"
| "crlfOnly [c] = (c \<noteq> CR \<and> c \<noteq> LF)"
| "crlfOnly (c # d # cs) =
     (if c = CR then d = LF \<and> crlfOnly cs else c \<noteq> LF \<and> crlfOnly (d # cs))"

section \<open>The emails API\<close>

text \<open>
  A number of the language as far as the API meets one: the result of \<open>parseInt\<close> is
  \<open>NaN\<close>, an integer-valued double (\<open>Num\<close> holds its exact value) or an infinity.
\<close>

datatype jsnum = NaN | Num int | PosInf | NegInf

text \<open>
  What the API handlers import or call outside their own text: the body parser (\<open>None\<close>
  when it throws), the mailbox lookup, the datastore's comparison of \<open>received_at\<close> with the
  bound cut-off and of the \<open>id\<close> column with a bound string, \<open>toLowerCase\<close>, the
  rounding of an integer beyond the safe range to a double, and which datastore calls of
  the request throw (the calls are numbered from 0 in the order the handler makes them).
\<close>

record 'n api = "'n collab" +
  parseEmailBody :: "jsstring \<Rightarrow> (jsstring \<times> jsstring) option"
  getMailboxIdByAddress :: "jsstring \<Rightarrow> int option"
  sqlGe :: "jsstring \<Rightarrow> jsstring \<Rightarrow> bool"
  idEq :: "jsstring \<Rightarrow> int \<Rightarrow> bool"
  toLowerCase :: "jsstring \<Rightarrow> jsstring"
  toDouble :: "int \<Rightarrow> jsnum"
  throws :: "nat \<Rightarrow> bool"

text \<open>A row of the table \<open>messages\<close>: the inserted columns, the key, and the older columns.\<close>

record stored = message +
  row_id :: int
  received_at :: jsstring
  is_read :: int
  content :: "jsstring option"
  html_content :: "jsstring option"

text \<open>The statements the handlers send, with the values they bind.\<close>

datatype stmt =
    MailboxLookup jsstring
  | SelectList int bool jsnum
  | SelectListLegacy int bool jsnum
  | SelectBatch "int list" bool
  | SelectBatchLegacy "int list" bool
  | SelectDetail jsstring bool
  | SelectBody jsstring
  | SelectDetailLegacy jsstring
  | UpdateRead jsstring

datatype api_error =
    MissingMailbox400
  | QueryFailed500
  | TooManyIds400
  | BatchFailed500
  | NotFound404
  | Expired404

datatype api_response =
    JsonRows "stored list"
  | JsonDetails "(stored \<times> jsstring \<times> jsstring) list"
  | JsonDetail stored jsstring jsstring jsstring
  | JsonRow stored
  | MockData
  | ErrorResponse api_error
  | Thrown

subsection \<open>\<open>parseInt(s, 10)\<close> and \<open>Math.min(n, 50)\<close>\<close>

definition isDigit :: "uchar \<Rightarrow> bool" where
  "isDigit c \<longleftrightarrow> 0x30 \<le> c \<and> c \<le> 0x39"

definition digitsValue :: "jsstring \<Rightarrow> int" where
  "digitsValue ds = foldl (\<lambda>a c. 10 * a + (uint c - 48)) 0 ds"

definition parseInt10 :: "('n, 'x) api_scheme \<Rightarrow> jsstring \<Rightarrow> jsnum" where
  "parseInt10 env s =
     (let s1 = dropWhile isSpace s;
          neg = (s1 \<noteq> [] \<and> hd s1 = 0x2D);
          s2 = (if s1 \<noteq> [] \<and> (hd s1 = 0x2D \<or> hd s1 = 0x2B) then tl s1 else s1);
          ds = takeWhile isDigit s2
      in if ds = [] then NaN
         else (let v = digitsValue ds; n = (if neg then - v else v)
               in if v \<le> 2 ^ 53 then Num n else toDouble env n))"

definition mathMin50 :: "jsnum \<Rightarrow> jsnum" where
  "mathMin50 x =
     (case x of NaN \<Rightarrow> NaN | Num n \<Rightarrow> Num (min n 50) | PosInf \<Rightarrow> Num 50 | NegInf \<Rightarrow> NegInf)"

text \<open>\<open>s.split(',')\<close>.\<close>

fun splitComma :: "jsstring \<Rightarrow> jsstring list" where
  "splitComma [] = [[]]"
| "splitComma (c # cs) =
     (if c = 0x2C then [] # splitComma cs
      else (case splitComma cs of [] \<Rightarrow> [[c]] | l # ls \<Rightarrow> (c # l) # ls))"

subsection \<open>The message list\<close>

text \<open>\<open>Math.min(parseInt(url.searchParams.get('limit') || '20', 10), 50)\<close>\<close>

definition listLimit :: "('n, 'x) api_scheme \<Rightarrow> jsstring option \<Rightarrow> jsnum" where
  "listLimit env limitParam =
     mathMin50 (parseInt10 env
       (case limitParam of None \<Rightarrow> asc ''20'' | Some l \<Rightarrow> (if l = [] then asc ''20'' else l)))"

text \<open>
  \<open>GET /api/emails\<close>. The rows of the answer are what the datastore returns for the
  statement; \<open>listRows\<close> stands for that.
\<close>

definition emailsList ::
  "('n, 'x) api_scheme \<Rightarrow> (stmt \<Rightarrow> stored list) \<Rightarrow> bool \<Rightarrow> bool \<Rightarrow>
   jsstring option \<Rightarrow> jsstring option \<Rightarrow> api_response \<times> stmt list"
where
  "emailsList env listRows isMock isMailboxOnly mailbox limitParam =
     (case mailbox of
        None \<Rightarrow> (ErrorResponse MissingMailbox400, [])
      | Some mb \<Rightarrow>
          if mb = [] then (ErrorResponse MissingMailbox400, [])
          else if isMock then (MockData, [])
          else
            (let normalized = toLowerCase env (trim (extractEmail env mb));
                 t0 = [MailboxLookup normalized]
             in if throws env 0 then (ErrorResponse QueryFailed500, t0)
                else (case getMailboxIdByAddress env normalized of
                        None \<Rightarrow> (JsonRows [], t0)
                      | Some mailboxId \<Rightarrow>
                          if mailboxId = 0 then (JsonRows [], t0)
                          else
                            (let limit = listLimit env limitParam;
                                 q1 = SelectList mailboxId isMailboxOnly limit;
                                 q2 = SelectListLegacy mailboxId isMailboxOnly limit
                             in if \<not> throws env 1 then (JsonRows (listRows q1), t0 @ [q1])
                                else if \<not> throws env 2
                                  then (JsonRows (listRows q2), t0 @ [q1, q2])
                                else (ErrorResponse QueryFailed500, t0 @ [q1, q2])))))"

subsection \<open>Reading the body of a row\<close>

definition truthyStr :: "jsstring option \<Rightarrow> bool" where
  "truthyStr v = (case v of None \<Rightarrow> False | Some x \<Rightarrow> x \<noteq> [])"

text \<open>
  \<open>try { if (row.eml_content) { parsed = parseEmailBody(...); content = parsed.text || '';
  html_content = parsed.html || '' } } catch (e) { }\<close>
\<close>

definition parsedBody :: "('n, 'x) api_scheme \<Rightarrow> ('y) stored_scheme \<Rightarrow> jsstring \<times> jsstring" where
  "parsedBody env row =
     (case eml_content row of
        None \<Rightarrow> ([], [])
      | Some eml \<Rightarrow>
          if eml = [] then ([], [])
          else (case parseEmailBody env eml of None \<Rightarrow> ([], []) | Some (t, h) \<Rightarrow> (t, h)))"

text \<open>\<open>if (!content && !html_content && row.eml_content) content = row.eml_content\<close>\<close>

definition rawFallback :: "('y) stored_scheme \<Rightarrow> jsstring \<times> jsstring \<Rightarrow> jsstring \<times> jsstring" where
  "rawFallback row ch =
     (if fst ch = [] \<and> snd ch = [] \<and> truthyStr (eml_content row)
      then (the (eml_content row), snd ch) else ch)"

text \<open>\<open>if (!content && !html_content && row.preview) content = row.preview\<close>\<close>

definition previewFallback :: "('y) stored_scheme \<Rightarrow> jsstring \<times> jsstring \<Rightarrow> jsstring \<times> jsstring" where
  "previewFallback row ch =
     (if fst ch = [] \<and> snd ch = [] \<and> truthyStr (preview row)
      then (the (preview row), snd ch) else ch)"

text \<open>
  The older columns, read by the single-message handler when nothing was found so far:
  \<open>fr = (fallback?.results || [])[0] || {}\<close>, \<open>content = content || fr.content || ''\<close>,
  \<open>html_content = html_content || fr.html_content || ''\<close>. \<open>None\<close> is the statement
  throwing, which the handler ignores.
\<close>

definition legacyFallback :: "stored list option \<Rightarrow> jsstring \<times> jsstring \<Rightarrow> jsstring \<times> jsstring" where
  "legacyFallback fallback ch =
     (if fst ch = [] \<and> snd ch = [] then
        (case fallback of
           None \<Rightarrow> ch
         | Some [] \<Rightarrow> ([], [])
         | Some (fr # _) \<Rightarrow>
             (if truthyStr (content fr) then the (content fr) else [],
              if truthyStr (html_content fr) then the (html_content fr) else []))
      else ch)"

subsection \<open>The batch of details\<close>

text \<open>
  \<open>idsParam.split(',').map(s => parseInt(s, 10)).filter(n => Number.isInteger(n) && n > 0)\<close>
\<close>

definition validId :: "jsnum \<Rightarrow> int option" where
  "validId x = (case x of Num n \<Rightarrow> (if n > 0 then Some n else None) | _ \<Rightarrow> None)"

definition batchIds :: "('n, 'x) api_scheme \<Rightarrow> jsstring \<Rightarrow> int list" where
  "batchIds env idsParam = List.map_filter (\<lambda>s. validId (parseInt10 env s)) (splitComma idsParam)"

definition recent :: "('n, 'x) api_scheme \<Rightarrow> jsstring \<Rightarrow> bool \<Rightarrow> stored \<Rightarrow> bool" where
  "recent env cutoff isMailboxOnly r \<longleftrightarrow> (isMailboxOnly \<longrightarrow> sqlGe env (received_at r) cutoff)"

definition batchContent :: "('n, 'x) api_scheme \<Rightarrow> stored \<Rightarrow> stored \<times> jsstring \<times> jsstring" where
  "batchContent env row = (row, previewFallback row (rawFallback row (parsedBody env row)))"

text \<open>\<open>GET /api/emails/batch\<close>. It reads only, so the table is an argument and is not returned.\<close>

definition emailsBatch ::
  "('n, 'x) api_scheme \<Rightarrow> jsstring \<Rightarrow> bool \<Rightarrow> bool \<Rightarrow> stored list \<Rightarrow>
   jsstring option \<Rightarrow> api_response \<times> stmt list"
where
  "emailsBatch env cutoff isMock isMailboxOnly rows idsQuery =
     (let idsParam = trim (case idsQuery of None \<Rightarrow> [] | Some q \<Rightarrow> q)
      in if idsParam = [] then (JsonRows [], [])
         else
           (let ids = batchIds env idsParam
            in if ids = [] then (JsonRows [], [])
               else if length ids > 50 then (ErrorResponse TooManyIds400, [])
               else if isMock then (MockData, [])
               else
                 (let found = filter (\<lambda>r. row_id r \<in> set ids \<and> recent env cutoff isMailboxOnly r) rows;
                      q1 = SelectBatch ids isMailboxOnly;
                      q2 = SelectBatchLegacy ids isMailboxOnly
                  in if \<not> throws env 0 then (JsonDetails (map (batchContent env) found), [q1])
                     else if \<not> throws env 1 then (JsonRows found, [q1, q2])
                     else (ErrorResponse BatchFailed500, [q1, q2]))))"

subsection \<open>One message\<close>

text \<open>\<open>UPDATE messages SET is_read = 1 WHERE id = ?\<close>\<close>

definition markRead :: "('n, 'x) api_scheme \<Rightarrow> jsstring \<Rightarrow> stored list \<Rightarrow> stored list" where
  "markRead env emailId rows =
     map (\<lambda>r. if idEq env emailId (row_id r) then r\<lparr>is_read := 1\<rparr> else r) rows"

text \<open>
  The \<open>catch\<close> of the single-message handler; \<open>n\<close> is the number of datastore calls made
  before it. An exception in here leaves the handler.
\<close>

definition detailCatch ::
  "('n, 'x) api_scheme \<Rightarrow> nat \<Rightarrow> stmt list \<Rightarrow> stored list \<Rightarrow> jsstring \<Rightarrow>
   api_response \<times> stmt list \<times> stored list"
where
  "detailCatch env n tr rows emailId =
     (let t1 = tr @ [SelectDetailLegacy emailId]
      in if throws env n then (Thrown, t1, rows)
         else
           (let results = filter (\<lambda>r. idEq env emailId (row_id r)) rows
            in if results = [] then (ErrorResponse NotFound404, t1, rows)
               else if throws env (n + 1) then (Thrown, t1 @ [UpdateRead emailId], rows)
               else (JsonRow (hd results), t1 @ [UpdateRead emailId], markRead env emailId rows)))"

text \<open>\<open>GET /api/email/:id\<close>: the response, the statements sent, and the table afterwards.\<close>

definition emailDetail ::
  "('n, 'x) api_scheme \<Rightarrow> jsstring \<Rightarrow> bool \<Rightarrow> bool \<Rightarrow> stored list \<Rightarrow> jsstring \<Rightarrow>
   api_response \<times> stmt list \<times> stored list"
where
  "emailDetail env cutoff isMock isMailboxOnly rows emailId =
     (if isMock then (MockData, [], rows)
      else
        (let t0 = [SelectDetail emailId isMailboxOnly]
         in if throws env 0 then detailCatch env 1 t0 rows emailId
            else
              (let results = filter (\<lambda>r. idEq env emailId (row_id r) \<and>
                                         recent env cutoff isMailboxOnly r) rows
               in if results = []
                  then (ErrorResponse (if isMailboxOnly then Expired404 else NotFound404), t0, rows)
                  else if throws env 1
                  then detailCatch env 2 (t0 @ [UpdateRead emailId]) rows emailId
                  else
                    (let rows1 = markRead env emailId rows;
                         row = hd results;
                         ch1 = rawFallback row (parsedBody env row);
                         needBody = (fst ch1 = [] \<and> snd ch1 = []);
                         fallback = (if throws env 2 then None
                                     else Some (filter (\<lambda>r. idEq env emailId (row_id r)) rows1));
                         ch2 = legacyFallback fallback ch1;
                         ch3 = previewFallback row ch2;
                         download = (if truthyStr (eml_content row)
                                     then asc ''/api/email/'' @ emailId @ asc ''/download'' else [])
                     in (JsonDetail row (fst ch3) (snd ch3) download,
                         t0 @ [UpdateRead emailId] @ (if needBody then [SelectBody emailId] else []),
                         rows1)))))"

text \<open>A response that carries the message (or the mock of it).\<close>

fun isSuccess :: "api_response \<Rightarrow> bool" where
  "isSuccess (JsonDetail row c h d) = True"
| "isSuccess (JsonRow row) = True"
| "isSuccess MockData = True"
| "isSuccess _ = False"

text \<open>The statements that change the table.\<close>

definition isWrite :: "stmt \<Rightarrow> bool" where
  "isWrite q = (case q of UpdateRead e \<Rightarrow> True | _ \<Rightarrow> False)"

text \<open>The same collaborators, with a parser that returns two empty strings where it threw.\<close>

definition swallowParse :: "('n, 'x) api_scheme \<Rightarrow> ('n, 'x) api_scheme" where
  "swallowParse env =
     env\<lparr>parseEmailBody :=
           (\<lambda>s. case parseEmailBody env s of None \<Rightarrow> Some ([], []) | Some r \<Rightarrow> Some r)\<rparr>"

section \<open>The message parser\<close>

text \<open>
  Modelled from the spec: the decoders of the transfer encodings base64 and
  quoted-printable. The parser module is not among the sources and the spec names the
  two encodings without describing them, so they are parameters.
\<close>

record codec =
  decodeBase64 :: "jsstring \<Rightarrow> jsstring"
  decodeQuotedPrintable :: "jsstring \<Rightarrow> jsstring"

text \<open>
  Modelled from the spec: step 1 of the message parser (the parser module is not among
  the sources), "split headers from body at the first blank line (CRLF CRLF, tolerate
  bare LF LF)". A message without a blank line is all headers here.
\<close>

fun splitHeaderBody :: "jsstring \<Rightarrow> jsstring \<times> jsstring" where
  "splitHeaderBody [] = ([], [])"
| "splitHeaderBody (c # cs) =
     (if take 4 (c # cs) = CRLF @ CRLF then ([], drop 4 (c # cs))
      else if take 2 (c # cs) = [LF, LF] then ([], drop 2 (c # cs))
      else (case splitHeaderBody cs of (h, b) \<Rightarrow> (c # h, b)))"

text \<open>
  Modelled from the spec: the lines of a header block, ended by CRLF or by a bare LF.
\<close>

fun splitLines :: "jsstring \<Rightarrow> jsstring list" where
  "splitLines [] = [[]]"
| "splitLines [c] = (if c = LF then [[], []] else [[c]])"
| "splitLines (c # d # cs) =
     (if c = LF then [] # splitLines (d # cs)
      else if c = CR \<and> d = LF then [] # splitLines cs
      else (case splitLines (d # cs) of [] \<Rightarrow> [[c]] | l # ls \<Rightarrow> (c # l) # ls))"

text \<open>
  Modelled from the spec: step 2, "case-insensitive header name lookup". A header line
  is a name, a colon and a value; the first line with the name is taken.
\<close>

definition toLowerAscii :: "uchar \<Rightarrow> uchar" where
  "toLowerAscii c = (if 0x41 \<le> c \<and> c \<le> 0x5A then c + 32 else c)"

text \<open>Modelled from the spec: lower case, for the case-insensitive comparisons of step 2.\<close>

definition lower :: "jsstring \<Rightarrow> jsstring" where
  "lower s = map toLowerAscii s"

text \<open>Modelled from the spec: the name of a header line, before the first colon.\<close>

definition headerName :: "jsstring \<Rightarrow> jsstring" where
  "headerName l = lower (trim (takeWhile (\<lambda>c. c \<noteq> 0x3A) l))"

text \<open>Modelled from the spec: the value of a header line, after the first colon.\<close>

definition headerValue :: "jsstring \<Rightarrow> jsstring" where
  "headerValue l = trim (drop 1 (dropWhile (\<lambda>c. c \<noteq> 0x3A) l))"

text \<open>Modelled from the spec: the header lookup of step 2; the first line with the name.\<close>

fun findHeader :: "jsstring \<Rightarrow> jsstring list \<Rightarrow> jsstring option" where
  "findHeader name [] = None"
| "findHeader name (l # ls) =
     (if 0x3A \<in> set l \<and> headerName l = name then Some (headerValue l)
      else findHeader name ls)"

text \<open>
  Modelled from the spec: step 2, "extract the top-level type and, if multipart/*, the
  boundary parameter (quoted or bare)".
\<close>

definition mediaType :: "jsstring \<Rightarrow> jsstring" where
  "mediaType v = lower (trim (takeWhile (\<lambda>c. c \<noteq> 0x3B) v))"

text \<open>Modelled from the spec: the parameters of a Content-Type value, separated by semicolons.\<close>

fun splitSemicolon :: "jsstring \<Rightarrow> jsstring list" where
  "splitSemicolon [] = [[]]"
| "splitSemicolon (c # cs) =
     (if c = 0x3B then [] # splitSemicolon cs
      else (case splitSemicolon cs of [] \<Rightarrow> [[c]] | l # ls \<Rightarrow> (c # l) # ls))"

text \<open>Modelled from the spec: a parameter value, "quoted or bare".\<close>

definition unquote :: "jsstring \<Rightarrow> jsstring" where
  "unquote s = (if s \<noteq> [] \<and> hd s = 0x22 then takeWhile (\<lambda>c. c \<noteq> 0x22) (tl s) else s)"

text \<open>Modelled from the spec: the lookup of a parameter by its name.\<close>

fun findParam :: "jsstring \<Rightarrow> jsstring list \<Rightarrow> jsstring option" where
  "findParam name [] = None"
| "findParam name (p # ps) =
     (if 0x3D \<in> set p \<and> lower (trim (takeWhile (\<lambda>c. c \<noteq> 0x3D) p)) = name
      then Some (unquote (trim (drop 1 (dropWhile (\<lambda>c. c \<noteq> 0x3D) p))))
      else findParam name ps)"

text \<open>Modelled from the spec: "the boundary parameter" of step 2.\<close>

definition boundaryOf :: "jsstring \<Rightarrow> jsstring option" where
  "boundaryOf v = findParam (asc ''boundary'') (tl (splitSemicolon v))"

text \<open>
  Modelled from the spec: step 3, "split the body on --boundary delimiters". The line
  break after a delimiter and the one before the next belong to the delimiters.
\<close>

function splitOnStr :: "jsstring \<Rightarrow> jsstring \<Rightarrow> jsstring list" where
  "splitOnStr d s =
     (if d = [] then [s]
      else (case s of
              [] \<Rightarrow> [[]]
            | c # cs \<Rightarrow>
                if take (length d) s = d then [] # splitOnStr d (drop (length d) s)
                else (case splitOnStr d cs of [] \<Rightarrow> [[c]] | l # ls \<Rightarrow> (c # l) # ls)))"
  by pat_completeness auto
termination
  by (relation "measure (\<lambda>(d, s). length s)") auto

text \<open>Modelled from the spec: the line break that ends a delimiter line is not part of the part.\<close>

definition dropLeadBreak :: "jsstring \<Rightarrow> jsstring" where
  "dropLeadBreak s =
     (if take 2 s = CRLF then drop 2 s else if take 1 s = [LF] then drop 1 s else s)"

text \<open>Modelled from the spec: the line break before a delimiter is not part of the part.\<close>

definition dropTrailBreak :: "jsstring \<Rightarrow> jsstring" where
  "dropTrailBreak s = rev (let r = rev s in
     if take 2 r = [LF, CR] then drop 2 r else if take 1 r = [LF] then drop 1 r else r)"

text \<open>
  Modelled from the spec: "decode its body per its Content-Transfer-Encoding (base64:
  decode; quoted-printable: decode; 7bit/8bit/binary/absent: pass through)". A code-unit
  string is already text; charsets are not modelled.
\<close>

definition decodeBody :: "('x) codec_scheme \<Rightarrow> jsstring option \<Rightarrow> jsstring \<Rightarrow> jsstring" where
  "decodeBody cd cte body =
     (case cte of
        None \<Rightarrow> body
      | Some e \<Rightarrow>
          if lower e = asc ''base64'' then decodeBase64 cd body
          else if lower e = asc ''quoted-printable'' then decodeQuotedPrintable cd body
          else body)"

text \<open>
  Modelled from the spec: "classify by its Content-Type as text or html", "default to
  text/plain when absent". Another type fills neither field.
\<close>

datatype kind = KText | KHtml | KOther

text \<open>Modelled from the spec: the classification of step 3 and step 4.\<close>

definition kindOf :: "jsstring option \<Rightarrow> kind" where
  "kindOf ct =
     (case ct of
        None \<Rightarrow> KText
      | Some v \<Rightarrow>
          if mediaType v = asc ''text/html'' then KHtml
          else if mediaType v = asc ''text/plain'' then KText
          else KOther)"

text \<open>
  Modelled from the spec: steps 1, 2 and the decoding for one entity (a part, or a
  message that is not multipart).
\<close>

definition parseEntity :: "('x) codec_scheme \<Rightarrow> jsstring \<Rightarrow> kind \<times> jsstring" where
  "parseEntity cd raw =
     (let hb = splitHeaderBody raw;
          hdrs = splitLines (fst hb);
          ct = findHeader (asc ''content-type'') hdrs;
          cte = findHeader (asc ''content-transfer-encoding'') hdrs
      in (kindOf ct, decodeBody cd cte (snd hb)))"

text \<open>
  Modelled from the spec: of several parts of one kind the first is taken ("recommended:
  first match per kind").
\<close>

definition firstOf :: "kind \<Rightarrow> (kind \<times> jsstring) list \<Rightarrow> jsstring" where
  "firstOf k ps = (case filter (\<lambda>p. fst p = k) ps of [] \<Rightarrow> [] | p # _ \<Rightarrow> snd p)"

text \<open>Modelled from the spec: a prefix test, for "multipart/*" and the closing delimiter.\<close>

definition startsWith :: "jsstring \<Rightarrow> jsstring \<Rightarrow> bool" where
  "startsWith p s \<longleftrightarrow> take (length p) s = p"

text \<open>
  Modelled from the spec: \<open>parseBody\<close>, the message parser of section 4.3 (the parser
  module, \<open>parseEmailBody\<close>, is not among the sources). The result is the pair of the text
  and the html. In a multipart body the preamble, the closing delimiter and everything
  after it are dropped.
\<close>

definition parseBody :: "('x) codec_scheme \<Rightarrow> jsstring \<Rightarrow> jsstring \<times> jsstring" where
  "parseBody cd raw =
     (let hb = splitHeaderBody raw;
          hdrs = splitLines (fst hb);
          ct = findHeader (asc ''content-type'') hdrs;
          bd = (case ct of None \<Rightarrow> None
                | Some v \<Rightarrow> if startsWith (asc ''multipart/'') (mediaType v)
                            then boundaryOf v else None)
      in case bd of
           Some b \<Rightarrow>
             (let segs = splitOnStr (asc ''--'' @ b) (snd hb);
                  parts = takeWhile (\<lambda>s. \<not> startsWith (asc ''--'') s) (tl segs);
                  ps = map (\<lambda>p. parseEntity cd (dropTrailBreak (dropLeadBreak p))) parts
              in (firstOf KText ps, firstOf KHtml ps))
         | None \<Rightarrow>
             (let e = parseEntity cd raw
              in (if fst e = KText then snd e else [], if fst e = KHtml then snd e else [])))"

text \<open>A codec that decodes nothing, for running the parser on 8bit messages.\<close>

definition idCodec :: codec where
  "idCodec = \<lparr> decodeBase64 = (\<lambda>s. s), decodeQuotedPrintable = (\<lambda>s. s) \<rparr>"

text \<open>
  Modelled from the spec: the comparison "modulo line-ending normalization" of the
  round-trip property, which the spec does not spell out. Two strings are compared after
  CR is dropped everywhere and the line feeds at the end are removed.
\<close>

definition eolNormalize :: "jsstring \<Rightarrow> jsstring" where
  "eolNormalize s = rev (dropWhile (\<lambda>c. c = LF) (rev (filter (\<lambda>c. c \<noteq> CR) s)))"

text \<open>The header lines of the single-part envelope.\<close>

definition singleHeaders :: "jsstring \<Rightarrow> jsstring \<Rightarrow> jsstring \<Rightarrow> jsstring \<Rightarrow> jsstring list" where
  \<open>singleHeaders sndr mbox subj dt =
     [ asc ''From: <'' @ sndr @ asc ''>'',
       asc ''To: <'' @ mbox @ asc ''>'',
       asc ''Subject: '' @ subj,
       asc ''Date: '' @ dt,
       asc ''MIME-Version: 1.0'',
       asc ''Content-Type: text/plain; charset="utf-8"'',
       asc ''Content-Transfer-Encoding: 8bit'' ]\<close>

text \<open>An envelope built from a subject that holds an empty line.\<close>

definition injected :: jsstring where
  "injected = buildEml (asc ''a@x.io'') (asc ''b@y.io'') (asc ''Hey'' @ CRLF @ CRLF @ asc ''you'')
                (asc ''Tue, 03 Nov 2026 11:00:00 GMT'') (asc ''mf-1'') (asc ''Hello'') []"

section \<open>A sample environment and payload\<close>

text \<open>
  Collaborators that pass addresses and markup through unchanged, an extractor that
  throws, and a payload with the fields \<open>to\<close>, \<open>from\<close> and \<open>text\<close>.
\<close>

definition demoEnv :: "nat collab" where
  "demoEnv = \<lparr> extractEmail = (\<lambda>s. s), stripHtml = (\<lambda>s. s),
               extractVerificationCode = (\<lambda>_ _ _. None),
               getOrCreateMailboxId = (\<lambda>_. Some 7),
               numberToString = (\<lambda>_. []), numberIsZero = (\<lambda>n. n = 0) \<rparr>"

definition demoPayload :: "nat json" where
  "demoPayload = JObj [(asc ''to'', JStr (asc ''b@y.io'')), (asc ''from'', JStr (asc ''a@x.io'')),
                       (asc ''text'', JStr (asc ''  hi   there ''))]"

text \<open>
  Collaborators for the API: a parser that throws, a datastore that matches a decimal
  string with the key of that value and never throws. Two rows: one written by the
  receiver, one from before the raw message was stored.
\<close>

definition demoApi :: "nat api" where
  "demoApi = \<lparr> extractEmail = (\<lambda>s. s), stripHtml = (\<lambda>s. s),
               extractVerificationCode = (\<lambda>_ _ _. None),
               getOrCreateMailboxId = (\<lambda>_. Some 7),
               numberToString = (\<lambda>_. []), numberIsZero = (\<lambda>n. n = 0),
               parseEmailBody = (\<lambda>_. None),
               getMailboxIdByAddress = (\<lambda>_. Some 7),
               sqlGe = (\<lambda>a b. True),
               idEq = (\<lambda>s k. s \<noteq> [] \<and> list_all isDigit s \<and> digitsValue s = k),
               toLowerCase = (\<lambda>s. s),
               toDouble = (\<lambda>_. PosInf),
               throws = (\<lambda>_. False) \<rparr>"

definition newRow :: stored where
  "newRow = \<lparr> mailbox_id = 7, sender = asc ''a@x.io'', to_addrs = asc ''b@y.io'',
              subject = asc ''Hey'', verification_code = None,
              preview = Some (asc ''new preview''), eml_content = Some (asc ''raw blob''),
              row_id = 2, received_at = asc ''2026-11-03 11:00:00'', is_read = 0,
              content = None, html_content = None \<rparr>"

definition oldRow :: stored where
  "oldRow = \<lparr> mailbox_id = 7, sender = asc ''a@x.io'', to_addrs = asc ''b@y.io'',
              subject = asc ''Hey'', verification_code = None,
              preview = Some (asc ''old preview''), eml_content = None,
              row_id = 1, received_at = asc ''2026-11-02 11:00:00'', is_read = 0,
              content = Some (asc ''old body''), html_content = None \<rparr>"

text \<open>The same collaborators with a datastore whose first call throws.\<close>

definition catchApi :: "nat api" where
  "catchApi = demoApi\<lparr>throws := (\<lambda>n. n = 0)\<rparr>"

text \<open>
  A datastore for the list statement, as far as the limit goes: the rows of the mailbox,
  cut as SQLite, the engine behind the datastore, documents its LIMIT clause: a negative
  limit is no upper bound, another number \<open>n\<close> keeps the first \<open>n\<close> rows. Order and the
  time filter are left out; the older statement and a limit that is no number give no
  rows here.
\<close>

definition sqliteList :: "stored list \<Rightarrow> stmt \<Rightarrow> stored list" where
  "sqliteList rows q =
     (case q of
        SelectList m b l \<Rightarrow>
          (case l of
             Num n \<Rightarrow> (if n < 0 then filter (\<lambda>r. mailbox_id r = m) rows
                       else take (nat n) (filter (\<lambda>r. mailbox_id r = m) rows))
           | _ \<Rightarrow> [])
      | _ \<Rightarrow> [])"

text \<open>Sixty rows of one mailbox.\<close>

definition manyRows :: "stored list" where
  "manyRows = map (\<lambda>i. newRow\<lparr>row_id := int i\<rparr>) [1..<61]"

text \<open>
  A payload whose subject is the number zero, whose text is \<open>true\<close> and whose html is
  \<open>null\<close>, and a payload whose text is an object with an own property \<open>toString\<close>.
\<close>

definition mixedPayload :: "nat json" where
  "mixedPayload = JObj [(asc ''to'', JStr (asc ''b@y.io'')), (asc ''from'', JStr (asc ''a@x.io'')),
                        (asc ''subject'', JNum 0), (asc ''text'', JBool True),
                        (asc ''html'', JNull)]"

definition throwingPayload :: "nat json" where
  "throwingPayload = JObj [(asc ''to'', JStr (asc ''b@y.io'')),
                           (asc ''text'', JObj [(asc ''toString'', JNum 1)])]"

section \<open>Facts about joining\<close>

lemma join_snoc_empty: "join sep (ls @ [[]]) = concat (map (\<lambda>l. l @ sep) ls)"
  by (induction sep ls rule: join.induct) auto

section \<open>Line breaks of the envelope\<close>

lemma crlfOnly_plain: "c \<noteq> CR \<Longrightarrow> c \<noteq> LF \<Longrightarrow> crlfOnly (c # b) = crlfOnly b"
  by (cases b) auto

lemma crlfOnly_break: "crlfOnly (CR # LF # b) = crlfOnly b"
  by simp

lemma crlfOnly_append: "crlfOnly a \<Longrightarrow> crlfOnly b \<Longrightarrow> crlfOnly (a @ b)"
proof (induction a rule: crlfOnly.induct)
  case 1
  then show ?case by simp
next
  case (2 c)
  then show ?case by (simp add: crlfOnly_plain)
next
  case (3 c d cs)
  then show ?case by (auto simp: crlfOnly_plain split: if_splits)
qed

lemma crlfOnly_CRLF: "crlfOnly CRLF" by (simp add: CRLF_def CR_def LF_def)


lemma crlfOnly_asc_literals:
  \<open>crlfOnly (asc ''From: <'')\<close>
  \<open>crlfOnly (asc ''>'')\<close>
  \<open>crlfOnly (asc ''To: <'')\<close>
  \<open>crlfOnly (asc ''Subject: '')\<close>
  \<open>crlfOnly (asc ''Date: '')\<close>
  \<open>crlfOnly (asc ''MIME-Version: 1.0'')\<close>
  \<open>crlfOnly (asc ''Content-Type: multipart/alternative; boundary="'')\<close>
  \<open>crlfOnly (asc ''"'')\<close>
  \<open>crlfOnly (asc ''--'')\<close>
  \<open>crlfOnly (asc ''Content-Type: text/plain; charset="utf-8"'')\<close>
  \<open>crlfOnly (asc ''Content-Type: text/html; charset="utf-8"'')\<close>
  \<open>crlfOnly (asc ''Content-Transfer-Encoding: 8bit'')\<close>
  by (simp_all add: asc_def CR_def LF_def)

lemma crlfOnly_concat_lines:
  "(\<And>l. l \<in> set ls \<Longrightarrow> crlfOnly l) \<Longrightarrow> crlfOnly (concat (map (\<lambda>l. l @ CRLF) ls))"
  by (induction ls) (auto intro!: crlfOnly_append crlfOnly_CRLF)

lemma emlLines_last: "last (emlLines sndr mbox subj dt bnd text html) = []"
  by (simp add: emlLines_def)

lemma emlLines_snoc:
  "emlLines sndr mbox subj dt bnd text html =
     butlast (emlLines sndr mbox subj dt bnd text html) @ [[]]"
  by (simp add: emlLines_def)

lemma buildEml_terminated:
  "buildEml sndr mbox subj dt bnd text html =
     concat (map (\<lambda>l. l @ CRLF) (butlast (emlLines sndr mbox subj dt bnd text html)))"
  unfolding buildEml_def
  by (subst emlLines_snoc) (rule join_snoc_empty)

lemma emlLines_crlfOnly:
  assumes "crlfOnly sndr" "crlfOnly mbox" "crlfOnly subj" "crlfOnly dt" "crlfOnly bnd"
    "crlfOnly text" "crlfOnly html"
  shows "\<forall>l \<in> set (emlLines sndr mbox subj dt bnd text html). crlfOnly l"
  using assms by (simp add: emlLines_def crlfOnly_append crlfOnly_asc_literals)


section \<open>White space of the preview\<close>

lemma isSpace_SP: "isSpace SP"
  by (simp add: isSpace_def SP_def)

lemma collapseWs_hd:
  "s \<noteq> [] \<Longrightarrow> \<not> isSpace (hd s) \<Longrightarrow> collapseWs s \<noteq> [] \<and> hd (collapseWs s) = hd s"
  by (cases s) auto

lemma dropWhile_hd_not: "dropWhile P s \<noteq> [] \<Longrightarrow> \<not> P (hd (dropWhile P s))"
  by (simp add: hd_dropWhile)

lemma singleSpaced_Cons:
  "singleSpaced (c # t) \<longleftrightarrow>
     (isSpace c \<longrightarrow> c = SP \<and> (t \<noteq> [] \<longrightarrow> \<not> isSpace (hd t))) \<and> singleSpaced t"
  by (cases t) auto

lemma collapseWs_Nil_iff: "collapseWs s = [] \<longleftrightarrow> s = []"
  by (cases s) auto

lemma collapseWs_singleSpaced: "singleSpaced (collapseWs s)"
proof (induction s rule: collapseWs.induct)
  case 1
  then show ?case by simp
next
  case (2 c cs)
  show ?case
  proof (cases "isSpace c")
    case True
    let ?t = "dropWhile isSpace cs"
    have "collapseWs ?t \<noteq> [] \<longrightarrow> \<not> isSpace (hd (collapseWs ?t))"
    proof
      assume "collapseWs ?t \<noteq> []"
      then have ne: "?t \<noteq> []" by (simp add: collapseWs_Nil_iff)
      then have "\<not> isSpace (hd ?t)" by (rule dropWhile_hd_not)
      with ne show "\<not> isSpace (hd (collapseWs ?t))" by (simp add: collapseWs_hd)
    qed
    with True 2 show ?thesis by (simp add: singleSpaced_Cons)
  next
    case False
    with 2 show ?thesis by (simp add: singleSpaced_Cons)
  qed
qed

lemma collapseWs_blank: "(\<forall>c \<in> set (collapseWs s). isSpace c) \<longleftrightarrow> (\<forall>c \<in> set s. isSpace c)"
proof (induction s rule: collapseWs.induct)
  case 1
  then show ?case by simp
next
  case (2 c cs)
  show ?case
  proof (cases "isSpace c")
    case True
    have "(\<forall>c \<in> set (dropWhile isSpace cs). isSpace c) \<longleftrightarrow> (\<forall>c \<in> set cs. isSpace c)"
      by (metis dropWhile_eq_Nil_conv hd_dropWhile hd_in_set set_dropWhileD)
    with True 2 show ?thesis by (simp add: isSpace_SP)
  next
    case False
    then show ?thesis by simp
  qed
qed

lemma trim_Nil_iff: "trim s = [] \<longleftrightarrow> (\<forall>c \<in> set s. isSpace c)"
proof -
  have "trim s = [] \<longleftrightarrow> (\<forall>c \<in> set (dropWhile isSpace s). isSpace c)"
    by (simp add: trim_def dropWhile_eq_Nil_conv)
  also have "\<dots> \<longleftrightarrow> (\<forall>c \<in> set s. isSpace c)"
    by (metis dropWhile_eq_Nil_conv hd_dropWhile hd_in_set set_dropWhileD)
  finally show ?thesis .
qed

lemma rev_split_while: "t = rev (dropWhile P (rev t)) @ rev (takeWhile P (rev t))"
  by (metis rev_append rev_rev_ident takeWhile_dropWhile_id)

lemma trim_decomp: "\<exists>a b. s = a @ trim s @ b"
proof -
  let ?t = "dropWhile isSpace s"
  have "?t = trim s @ rev (takeWhile isSpace (rev ?t))"
    unfolding trim_def by (rule rev_split_while)
  moreover have "s = takeWhile isSpace s @ ?t" by simp
  ultimately have "s = takeWhile isSpace s @ trim s @ rev (takeWhile isSpace (rev ?t))"
    by simp
  then show ?thesis by blast
qed

lemma singleSpaced_appendD: "singleSpaced (a @ b) \<Longrightarrow> singleSpaced a \<and> singleSpaced b"
proof (induction a)
  case Nil
  then show ?case by simp
next
  case (Cons c a)
  then show ?case by (cases a) (auto simp: singleSpaced_Cons)
qed

lemma trim_singleSpaced: "singleSpaced s \<Longrightarrow> singleSpaced (trim s)"
  by (metis singleSpaced_appendD trim_decomp)

lemma take_singleSpaced: "singleSpaced s \<Longrightarrow> singleSpaced (take n s)"
  by (metis append_take_drop_id singleSpaced_appendD)

lemma trim_hd: "trim s \<noteq> [] \<Longrightarrow> \<not> isSpace (hd (trim s))"
proof -
  let ?t = "dropWhile isSpace s"
  assume ne: "trim s \<noteq> []"
  have t: "?t = trim s @ rev (takeWhile isSpace (rev ?t))"
    unfolding trim_def by (rule rev_split_while)
  with ne have "?t \<noteq> []" by (metis append_is_Nil_conv)
  then have "\<not> isSpace (hd ?t)" by (rule dropWhile_hd_not)
  moreover from t ne have "hd ?t = hd (trim s)" by (metis hd_append2)
  ultimately show ?thesis by simp
qed

lemma previewOf_props:
  "length (previewOf env text html) \<le> 120"
  "singleSpaced (previewOf env text html)"
  "previewOf env text html \<noteq> [] \<Longrightarrow> \<not> isSpace (hd (previewOf env text html))"
  "previewOf env text html = [] \<longleftrightarrow>
     (\<forall>c \<in> set (if text \<noteq> [] then text else stripHtml env html). isSpace c)"
proof -
  let ?b = "if text \<noteq> [] then text else stripHtml env html"
  have p: "previewOf env text html = take 120 (trim (collapseWs ?b))"
    by (simp add: previewOf_def Let_def)
  show "length (previewOf env text html) \<le> 120" by (simp add: p)
  show "singleSpaced (previewOf env text html)"
    unfolding p by (intro take_singleSpaced trim_singleSpaced collapseWs_singleSpaced)
  show "previewOf env text html = [] \<longleftrightarrow> (\<forall>c \<in> set ?b. isSpace c)"
    unfolding p by (simp add: trim_Nil_iff collapseWs_blank)
  assume "previewOf env text html \<noteq> []"
  then have "trim (collapseWs ?b) \<noteq> []" unfolding p by auto
  then have "\<not> isSpace (hd (trim (collapseWs ?b)))" by (rule trim_hd)
  then show "\<not> isSpace (hd (previewOf env text html))" unfolding p by simp
qed

section \<open>The receiver's row\<close>

lemma those_None_iff: "those ys = None \<longleftrightarrow> None \<in> set ys"
proof (induction ys)
  case Nil
  show ?case by simp
next
  case (Cons y ys)
  then show ?case by (cases y) simp_all
qed

lemma toString_arr:
  "toString env (JArr xs) = None \<longleftrightarrow>
        (\<exists>x \<in> set xs. x \<noteq> JNull \<and> toString env x = None)"
proof -
  have "toString env (JArr xs) = None \<longleftrightarrow>
     None \<in> set (map (\<lambda>x. if x = JNull then Some [] else toString env x) xs)"
    by (simp add: those_None_iff)
  also have "\<dots> \<longleftrightarrow> (\<exists>x \<in> set xs. x \<noteq> JNull \<and> toString env x = None)"
    by (induction xs) auto
  finally show ?thesis .
qed


lemma toString_throws_iff: "toString env v = None \<longleftrightarrow> \<not> convertible v"
proof (induction env v rule: toString.induct)
  case (5 env xs)
  have "(\<exists>x \<in> set xs. x \<noteq> JNull \<and> toString env x = None) \<longleftrightarrow>
        (\<exists>x \<in> set xs. \<not> convertible x)"
  proof
    assume "\<exists>x \<in> set xs. x \<noteq> JNull \<and> toString env x = None"
    then obtain x where "x \<in> set xs" "x \<noteq> JNull" "toString env x = None" by blast
    with 5 show "\<exists>x \<in> set xs. \<not> convertible x" by blast
  next
    assume "\<exists>x \<in> set xs. \<not> convertible x"
    then obtain x where x: "x \<in> set xs" "\<not> convertible x" by blast
    then have "x \<noteq> JNull" by auto
    with 5 x show "\<exists>x \<in> set xs. x \<noteq> JNull \<and> toString env x = None" by blast
  qed
  with toString_arr [of env xs]
  have "toString env (JArr xs) = None \<longleftrightarrow> (\<exists>x \<in> set xs. \<not> convertible x)" by blast
  also have "\<dots> \<longleftrightarrow> \<not> convertible (JArr xs)"
    by (simp only: convertible.simps list_all_iff) blast
  finally show ?case .
qed simp_all

lemma truthy_env_irrelevant:
  "truthy (env\<lparr>extractVerificationCode := f\<rparr>) j = truthy env j"
  by (cases j) simp_all

lemma toString_env_irrelevant:
  "toString (env\<lparr>extractVerificationCode := f\<rparr>) j = toString env j"
proof (induction env j rule: toString.induct)
  case (5 env xs)
  have "map (\<lambda>x. if x = JNull then Some []
                  else toString (env\<lparr>extractVerificationCode := f\<rparr>) x) xs =
        map (\<lambda>x. if x = JNull then Some [] else toString env x) xs"
    by (rule map_cong) (simp_all add: 5)
  then show ?case by (simp only: toString.simps)
qed simp_all

lemma stringOr_env_irrelevant:
  "stringOr (env\<lparr>extractVerificationCode := f\<rparr>) v d = stringOr env v d"
  by (simp add: stringOr_def truthy_env_irrelevant toString_env_irrelevant split: option.splits)

lemma fields_env_irrelevant:
  "toOf (env\<lparr>extractVerificationCode := f\<rparr>) p = toOf env p"
  "fromOf (env\<lparr>extractVerificationCode := f\<rparr>) p = fromOf env p"
  "subjectOf (env\<lparr>extractVerificationCode := f\<rparr>) p = subjectOf env p"
  "textOf (env\<lparr>extractVerificationCode := f\<rparr>) p = textOf env p"
  "htmlOf (env\<lparr>extractVerificationCode := f\<rparr>) p = htmlOf env p"
  by (simp_all add: toOf_def fromOf_def subjectOf_def textOf_def htmlOf_def stringOr_env_irrelevant)

lemma fieldsOf_env_irrelevant:
  "fieldsOf (env\<lparr>extractVerificationCode := f\<rparr>) p = fieldsOf env p"
  by (simp add: fieldsOf_def fields_env_irrelevant)

lemma fieldsOf_Some:
  "fieldsOf env p = Some (to, from, subj, text, html) \<longleftrightarrow>
     toOf env p = Some to \<and> fromOf env p = Some from \<and> subjectOf env p = Some subj \<and>
     textOf env p = Some text \<and> htmlOf env p = Some html"
  by (auto simp: fieldsOf_def split: option.splits)

lemma fieldsOf_None:
  "fieldsOf env p = None \<longleftrightarrow>
     toOf env p = None \<or> fromOf env p = None \<or> subjectOf env p = None \<or>
     textOf env p = None \<or> htmlOf env p = None"
  by (auto simp: fieldsOf_def split: option.splits)

lemma previewOf_env_irrelevant:
  "previewOf (env\<lparr>extractVerificationCode := f\<rparr>) text html = previewOf env text html"
  by (simp add: previewOf_def)

lemma receiveRow_code_threw:
  assumes "extractVerificationCode env subj text html = None"
  shows "receiveRow env d b (to, from, subj, text, html) mid =
           receiveRow (env\<lparr>extractVerificationCode := \<lambda>_ _ _. Some []\<rparr>) d b
             (to, from, subj, text, html) mid"
    and "verification_code (receiveRow env d b (to, from, subj, text, html) mid) = None"
  using assms
  by (simp_all add: receiveRow_def Let_def previewOf_env_irrelevant codeOf_def orNull_def)

lemma stringOr_default:
  "absentOrFalsy env p k \<Longrightarrow> stringOr env (getField p k) d = Some d"
  by (simp add: absentOrFalsy_def stringOr_def split: option.splits)

lemma stringOr_value:
  "\<not> absentOrFalsy env p k \<Longrightarrow> stringOr env (getField p k) d = toString env (the (getField p k))"
  by (simp add: absentOrFalsy_def stringOr_def split: option.splits)

lemma receiveRow_eml:
  "eml_content (receiveRow env d b (to, from, subj, text, html) mid) =
     Some (buildEml (extractEmail env from) (extractEmail env to) subj d b text html)"
  by (simp add: receiveRow_def Let_def orNull_def buildEml_def emlLines_def asc_def)

lemma buildEml_address_headers:
  "\<exists>rest. buildEml sndr mbox subj d b text html =
     asc ''From: <'' @ sndr @ asc ''>'' @ CRLF @ asc ''To: <'' @ mbox @ asc ''>'' @ CRLF @ rest"
  by (simp add: buildEml_def emlLines_def)

lemma handle_Inr:
  "handleEmailReceive env d b p = Inr m \<longleftrightarrow>
     (\<exists>flds mid. fieldsOf env p = Some flds \<and>
        getOrCreateMailboxId env (extractEmail env (fst flds)) = Some mid \<and>
        m = receiveRow env d b flds mid)"
  by (auto simp: handleEmailReceive_def split: option.splits)

lemma demo_fields:
  "toOf demoEnv demoPayload = Some (asc ''b@y.io'')"
  "fromOf demoEnv demoPayload = Some (asc ''a@x.io'')"
  "subjectOf demoEnv demoPayload = Some noSubject"
  "textOf demoEnv demoPayload = Some (asc ''  hi   there '')"
  "htmlOf demoEnv demoPayload = Some []"
  by (simp_all add: toOf_def fromOf_def subjectOf_def textOf_def htmlOf_def stringOr_def
      demoEnv_def demoPayload_def asc_def)

lemma demo_fieldsOf:
  "fieldsOf demoEnv demoPayload =
     Some (asc ''b@y.io'', asc ''a@x.io'', noSubject, asc ''  hi   there '', [])"
  by (simp add: fieldsOf_Some demo_fields)

lemma demo_handle:
  "handleEmailReceive demoEnv d b demoPayload =
     Inr (receiveRow demoEnv d b
            (asc ''b@y.io'', asc ''a@x.io'', noSubject, asc ''  hi   there '', []) 7)"
  by (simp add: handleEmailReceive_def demo_fieldsOf) (simp add: demoEnv_def)

lemma collapse_demo: "take 120 (trim (collapseWs (asc ''  hi   there ''))) = asc ''hi there''"
  by (simp add: asc_def isSpace_def trim_def SP_def)

lemma mixed_absent:
  "absentOrFalsy demoEnv mixedPayload (asc ''subject'')"
  "absentOrFalsy demoEnv mixedPayload (asc ''html'')"
  "\<not> absentOrFalsy demoEnv mixedPayload (asc ''to'')"
  "\<not> absentOrFalsy demoEnv mixedPayload (asc ''from'')"
  "\<not> absentOrFalsy demoEnv mixedPayload (asc ''text'')"
  by (simp_all add: absentOrFalsy_def demoEnv_def mixedPayload_def asc_def)

lemma mixed_values:
  "the (getField mixedPayload (asc ''to'')) = JStr (asc ''b@y.io'')"
  "the (getField mixedPayload (asc ''from'')) = JStr (asc ''a@x.io'')"
  "the (getField mixedPayload (asc ''text'')) = JBool True"
  by (simp_all add: mixedPayload_def asc_def)

lemma mixed_fieldsOf:
  "fieldsOf demoEnv mixedPayload =
     Some (asc ''b@y.io'', asc ''a@x.io'', noSubject, asc ''true'', [])"
  by (simp add: fieldsOf_Some toOf_def fromOf_def subjectOf_def textOf_def htmlOf_def
      stringOr_default stringOr_value mixed_absent mixed_values)

lemma mixed_handle:
  "handleEmailReceive demoEnv d b mixedPayload =
     Inr (receiveRow demoEnv d b (asc ''b@y.io'', asc ''a@x.io'', noSubject, asc ''true'', []) 7)"
  by (simp add: handleEmailReceive_def mixed_fieldsOf) (simp add: demoEnv_def)

lemma throwing_text:
  "getField throwingPayload (asc ''text'') = Some (JObj [(asc ''toString'', JNum 1)])"
  "\<not> absentOrFalsy demoEnv throwingPayload (asc ''text'')"
  "\<not> convertible (JObj [(asc ''toString'', JNum 1) :: jsstring \<times> nat json])"
  "textOf demoEnv throwingPayload = None"
  by (simp_all add: throwingPayload_def absentOrFalsy_def textOf_def stringOr_def hasKey_def
      asc_def)

section \<open>Facts about the emails API\<close>

lemma parseInt10_20: "parseInt10 env (asc ''20'') = Num 20"
  by (simp add: parseInt10_def isSpace_def isDigit_def digitsValue_def asc_def Let_def)

lemma listLimit_absent:
  "limitParam = None \<or> limitParam = Some [] \<Longrightarrow> listLimit env limitParam = Num 20"
  by (auto simp: listLimit_def parseInt10_20 mathMin50_def)

lemma listLimit_num:
  "l \<noteq> [] \<Longrightarrow> parseInt10 env l = Num n \<Longrightarrow> listLimit env (Some l) = Num (min n 50)"
  by (simp add: listLimit_def mathMin50_def)

lemma listLimit_nan:
  "l \<noteq> [] \<Longrightarrow> parseInt10 env l = NaN \<Longrightarrow> listLimit env (Some l) = NaN"
  by (simp add: listLimit_def mathMin50_def)

lemma mathMin50_bound: "mathMin50 x \<noteq> PosInf \<and> (\<forall>n. mathMin50 x = Num n \<longrightarrow> n \<le> 50)"
  by (cases x) (auto simp: mathMin50_def)

lemma listLimit_bound:
  "listLimit env limitParam \<noteq> PosInf \<and> (\<forall>n. listLimit env limitParam = Num n \<longrightarrow> n \<le> 50)"
  unfolding listLimit_def by (rule mathMin50_bound)

lemma emailsList_limits:
  "q \<in> set (snd (emailsList env listRows isMock mbo mailbox limitParam)) \<Longrightarrow>
   q = SelectList m b l \<or> q = SelectListLegacy m b l \<Longrightarrow> l = listLimit env limitParam"
  by (auto simp: emailsList_def Let_def split: option.splits if_splits)

lemma batchIds_Nil: "batchIds env [] = []"
  by (simp add: batchIds_def List.map_filter_def parseInt10_def validId_def Let_def)

lemma emailsBatch_too_many:
  "length (batchIds env (trim q)) > 50 \<Longrightarrow>
   emailsBatch env cutoff isMock mbo rows (Some q) = (ErrorResponse TooManyIds400, [])"
proof -
  assume a: "length (batchIds env (trim q)) > 50"
  then have "trim q \<noteq> []" using batchIds_Nil [of env] by auto
  moreover from a have "batchIds env (trim q) \<noteq> []" by auto
  ultimately show ?thesis using a by (simp add: emailsBatch_def Let_def)
qed

lemma markRead_length: "length (markRead env emailId rows) = length rows"
  by (simp add: markRead_def)

lemma markRead_nth:
  "i < length rows \<Longrightarrow>
   markRead env emailId rows ! i =
     (if idEq env emailId (row_id (rows ! i)) then (rows ! i)\<lparr>is_read := 1\<rparr> else rows ! i)"
  by (simp add: markRead_def)

lemma detailCatch_effect:
  assumes "detailCatch env n tr rows emailId = (resp, tr', rows')"
  shows "(isSuccess resp \<longrightarrow> rows' = markRead env emailId rows) \<and>
         (\<not> isSuccess resp \<longrightarrow> rows' = rows) \<and>
         ((\<forall>q \<in> set tr. isWrite q \<longrightarrow> q = UpdateRead emailId) \<longrightarrow>
          (\<forall>q \<in> set tr'. isWrite q \<longrightarrow> q = UpdateRead emailId))"
  using assms
  by (auto simp: detailCatch_def Let_def isWrite_def split: if_splits)

lemma emailDetail_effect:
  assumes "emailDetail env cutoff isMock mbo rows emailId = (resp, tr, rows')"
  shows "(isSuccess resp \<longrightarrow> rows' = (if isMock then rows else markRead env emailId rows)) \<and>
         (\<not> isSuccess resp \<longrightarrow> rows' = rows) \<and>
         (\<forall>q \<in> set tr. isWrite q \<longrightarrow> q = UpdateRead emailId)"
proof (cases isMock)
  case True
  with assms show ?thesis by (simp add: emailDetail_def)
next
  case nm: False
  show ?thesis
  proof (cases "throws env 0")
    case True
    with nm assms
    have "detailCatch env 1 [SelectDetail emailId mbo] rows emailId = (resp, tr, rows')"
      by (simp add: emailDetail_def Let_def)
    from detailCatch_effect [OF this] nm show ?thesis by (simp add: isWrite_def)
  next
    case t0: False
    let ?results = "filter (\<lambda>r. idEq env emailId (row_id r) \<and> recent env cutoff mbo r) rows"
    show ?thesis
    proof (cases "?results = []")
      case True
      with nm t0 assms show ?thesis
        by (auto simp: emailDetail_def Let_def isWrite_def split: if_splits)
    next
      case ne: False
      show ?thesis
      proof (cases "throws env 1")
        case True
        with nm t0 ne assms
        have "detailCatch env 2 ([SelectDetail emailId mbo] @ [UpdateRead emailId]) rows emailId
                = (resp, tr, rows')"
          by (simp add: emailDetail_def Let_def)
        from detailCatch_effect [OF this] nm show ?thesis by (simp add: isWrite_def)
      next
        case False
        with nm t0 ne assms show ?thesis
          by (auto simp: emailDetail_def Let_def isWrite_def split: if_splits)
      qed
    qed
  qed
qed

lemma demo_detail_new:
  "emailDetail demoApi [] False False [oldRow, newRow] (asc ''2'') =
     (JsonDetail newRow (asc ''raw blob'') [] (asc ''/api/email/2/download''),
      [SelectDetail (asc ''2'') False, UpdateRead (asc ''2'')],
      [oldRow, newRow\<lparr>is_read := 1\<rparr>])"
  by (simp add: emailDetail_def Let_def demoApi_def oldRow_def newRow_def recent_def markRead_def
      parsedBody_def rawFallback_def legacyFallback_def previewFallback_def truthyStr_def
      isDigit_def digitsValue_def asc_def)

lemma truthyStr_the: "truthyStr v \<Longrightarrow> the v \<noteq> []"
  by (cases v) (simp_all add: truthyStr_def)

lemma swallow_sel:
  "throws (swallowParse env) = throws env"
  "idEq (swallowParse env) = idEq env"
  "toDouble (swallowParse env) = toDouble env"
  "sqlGe (swallowParse env) = sqlGe env"
  by (simp_all add: swallowParse_def)

lemma emailDetail_JsonDetail:
  assumes "emailDetail env cutoff isMock mbo rows emailId = (JsonDetail row c h dl, tr, rows')"
  shows "(c, h) = previewFallback row (legacyFallback
            (if throws env 2 then None
             else Some (filter (\<lambda>r. idEq env emailId (row_id r)) rows'))
            (rawFallback row (parsedBody env row)))"
  using assms
  by (auto simp: emailDetail_def detailCatch_def Let_def split: if_splits)

lemma batch_raw:
  "parsedBody env row = ([], []) \<Longrightarrow> truthyStr (eml_content row) \<Longrightarrow>
   batchContent env row = (row, the (eml_content row), [])"
  by (simp add: batchContent_def rawFallback_def previewFallback_def truthyStr_def
      split: option.splits)

lemma batch_preview:
  "parsedBody env row = ([], []) \<Longrightarrow> \<not> truthyStr (eml_content row) \<Longrightarrow>
   batchContent env row = (row, (if truthyStr (preview row) then the (preview row) else []), [])"
  by (simp add: batchContent_def rawFallback_def previewFallback_def)

lemma detail_raw:
  assumes "emailDetail env cutoff isMock mbo rows emailId = (JsonDetail row c h dl, tr, rows')"
    and "parsedBody env row = ([], [])" and "truthyStr (eml_content row)"
  shows "c = the (eml_content row) \<and> h = []"
  using emailDetail_JsonDetail [OF assms(1)] assms(2,3)
  by (auto simp: rawFallback_def legacyFallback_def previewFallback_def truthyStr_def
      split: option.splits if_splits)

lemma detail_no_raw:
  assumes "emailDetail env cutoff isMock mbo rows emailId = (JsonDetail row c h dl, tr, rows')"
    and "parsedBody env row = ([], [])" and "\<not> truthyStr (eml_content row)"
  shows "let legacy = (if throws env 2 then []
                       else filter (\<lambda>r. idEq env emailId (row_id r)) rows')
         in if legacy \<noteq> [] \<and>
               (truthyStr (content (hd legacy)) \<or> truthyStr (html_content (hd legacy)))
            then c = (if truthyStr (content (hd legacy)) then the (content (hd legacy)) else []) \<and>
                 h = (if truthyStr (html_content (hd legacy))
                      then the (html_content (hd legacy)) else [])
            else c = (if truthyStr (preview row) then the (preview row) else []) \<and> h = []"
  using emailDetail_JsonDetail [OF assms(1)] assms(2,3)
  by (auto simp: rawFallback_def legacyFallback_def previewFallback_def Let_def truthyStr_the
      split: if_splits list.splits)

lemma parsedBody_swallow: "parsedBody (swallowParse env) row = parsedBody env row"
  by (simp add: parsedBody_def swallowParse_def split: option.splits)

lemma parseInt10_swallow: "parseInt10 (swallowParse env) s = parseInt10 env s"
  by (simp add: parseInt10_def swallow_sel Let_def)

lemma emailsBatch_swallow:
  "emailsBatch (swallowParse env) cutoff isMock mbo rows idsQuery =
   emailsBatch env cutoff isMock mbo rows idsQuery"
proof -
  have b: "batchContent (swallowParse env) = batchContent env"
    by (rule ext) (simp add: batchContent_def parsedBody_swallow)
  have i: "batchIds (swallowParse env) = batchIds env"
    by (rule ext) (simp add: batchIds_def parseInt10_swallow)
  have r: "recent (swallowParse env) = recent env"
    by (intro ext) (simp add: recent_def swallow_sel)
  show ?thesis by (simp add: emailsBatch_def b i r swallow_sel Let_def)
qed

lemma emailDetail_swallow:
  "emailDetail (swallowParse env) cutoff isMock mbo rows emailId =
   emailDetail env cutoff isMock mbo rows emailId"
proof -
  have r: "recent (swallowParse env) = recent env"
    by (intro ext) (simp add: recent_def swallow_sel)
  have m: "markRead (swallowParse env) = markRead env"
    by (intro ext) (simp add: markRead_def swallow_sel)
  have d: "detailCatch (swallowParse env) = detailCatch env"
    by (intro ext) (simp add: detailCatch_def swallow_sel m Let_def)
  show ?thesis by (simp add: emailDetail_def r swallow_sel m d parsedBody_swallow Let_def)
qed

lemma demo_detail_old:
  "emailDetail demoApi [] False False [oldRow, newRow] (asc ''1'') =
     (JsonDetail oldRow (asc ''old body'') [] [],
      [SelectDetail (asc ''1'') False, UpdateRead (asc ''1''), SelectBody (asc ''1'')],
      [oldRow\<lparr>is_read := 1\<rparr>, newRow])"
  by (simp add: emailDetail_def Let_def demoApi_def oldRow_def newRow_def recent_def markRead_def
      parsedBody_def rawFallback_def legacyFallback_def previewFallback_def truthyStr_def
      isDigit_def digitsValue_def asc_def)

lemma demo_parsed:
  "parsedBody demoApi newRow = ([], [])" "parsedBody demoApi oldRow = ([], [])"
  "truthyStr (eml_content newRow)" "\<not> truthyStr (eml_content oldRow)"
  "the (eml_content newRow) = asc ''raw blob''"
  "truthyStr (preview oldRow)" "the (preview oldRow) = asc ''old preview''"
  by (simp_all add: parsedBody_def demoApi_def newRow_def oldRow_def truthyStr_def asc_def)

lemma demo_parseInt:
  "parseInt10 demoApi (asc ''100'') = Num 100" "parseInt10 demoApi (asc ''7'') = Num 7"
  "asc ''100'' \<noteq> []" "asc ''7'' \<noteq> []"
  by (simp_all add: parseInt10_def isSpace_def isDigit_def digitsValue_def asc_def Let_def)

lemma batch_main:
  assumes "emailsBatch env cutoff isMock mbo rows idsQuery = (JsonDetails ds, tr)"
  shows "\<not> throws env 0 \<and> \<not> isMock \<and>
         ds = map (batchContent env)
                (filter (\<lambda>r. row_id r \<in> set (batchIds env (trim (case idsQuery of None \<Rightarrow> [] | Some q \<Rightarrow> q))) \<and>
                              recent env cutoff mbo r) rows)"
  using assms by (auto simp: emailsBatch_def Let_def split: if_splits)

lemma batch_entry:
  assumes "emailsBatch env cutoff isMock mbo rows idsQuery = (JsonDetails ds, tr)"
    and "(row, c, h) \<in> set ds" and "parsedBody env row = ([], [])"
  shows "(truthyStr (eml_content row) \<longrightarrow> c = the (eml_content row) \<and> h = []) \<and>
         (\<not> truthyStr (eml_content row) \<longrightarrow>
            c = (if truthyStr (preview row) then the (preview row) else []) \<and> h = [])"
proof -
  from batch_main [OF assms(1)] assms(2)
  obtain r where "(row, c, h) = batchContent env r" by auto
  then have e: "batchContent env row = (row, c, h)" by (simp add: batchContent_def)
  show ?thesis
    using batch_raw [OF assms(3)] batch_preview [OF assms(3)] e by auto
qed

lemma batch_reaches_main:
  assumes "trim q \<noteq> []" "batchIds env (trim q) \<noteq> []" "length (batchIds env (trim q)) \<le> 50"
    "\<not> isMock" "\<not> throws env 0"
  shows "emailsBatch env cutoff isMock mbo rows (Some q) =
           (JsonDetails (map (batchContent env)
              (filter (\<lambda>r. row_id r \<in> set (batchIds env (trim q)) \<and> recent env cutoff mbo r) rows)),
            [SelectBatch (batchIds env (trim q)) mbo])"
  using assms by (simp add: emailsBatch_def Let_def)

lemma batch_catch:
  assumes "trim q \<noteq> []" "batchIds env (trim q) \<noteq> []" "length (batchIds env (trim q)) \<le> 50"
    "\<not> isMock" "throws env 0"
  shows "fst (emailsBatch env cutoff isMock mbo rows (Some q)) =
           (if throws env 1 then ErrorResponse BatchFailed500
            else JsonRows (filter (\<lambda>r. row_id r \<in> set (batchIds env (trim q)) \<and>
                                        recent env cutoff mbo r) rows))"
  using assms by (simp add: emailsBatch_def Let_def)

lemma detail_main:
  assumes "emailDetail env cutoff isMock mbo rows emailId = (JsonDetail row c h dl, tr, rows')"
  shows "\<not> isMock \<and> \<not> throws env 0 \<and> \<not> throws env 1 \<and>
         row = hd (filter (\<lambda>r. idEq env emailId (row_id r) \<and> recent env cutoff mbo r) rows)"
  using assms by (auto simp: emailDetail_def detailCatch_def Let_def split: if_splits)

lemma detail_reaches_main:
  assumes "\<not> isMock" "\<not> throws env 0" "\<not> throws env 1"
    "filter (\<lambda>r. idEq env emailId (row_id r) \<and> recent env cutoff mbo r) rows \<noteq> []"
  shows "\<exists>c h dl tr rows'. emailDetail env cutoff isMock mbo rows emailId =
           (JsonDetail (hd (filter (\<lambda>r. idEq env emailId (row_id r) \<and> recent env cutoff mbo r) rows))
              c h dl, tr, rows')"
  using assms by (simp add: emailDetail_def Let_def)

lemma detail_catch:
  assumes "\<not> isMock"
    and "throws env 0 \<or>
         (filter (\<lambda>r. idEq env emailId (row_id r) \<and> recent env cutoff mbo r) rows \<noteq> [] \<and>
          throws env 1)"
  shows "fst (emailDetail env cutoff isMock mbo rows emailId) = Thrown \<or>
         fst (emailDetail env cutoff isMock mbo rows emailId) = ErrorResponse NotFound404 \<or>
         fst (emailDetail env cutoff isMock mbo rows emailId) =
           JsonRow (hd (filter (\<lambda>r. idEq env emailId (row_id r)) rows))"
  using assms by (auto simp: emailDetail_def detailCatch_def Let_def)

lemma demo_batch:
  "emailsBatch demoApi [] False False [oldRow, newRow] (Some (asc ''1,2'')) =
     (JsonDetails [(oldRow, asc ''old preview'', []), (newRow, asc ''raw blob'', [])],
      [SelectBatch [1, 2] False])"
  by (simp add: emailsBatch_def Let_def demoApi_def oldRow_def newRow_def recent_def
      batchContent_def parsedBody_def rawFallback_def previewFallback_def truthyStr_def
      batchIds_def List.map_filter_def parseInt10_def validId_def isDigit_def digitsValue_def
      trim_def isSpace_def asc_def)

lemma catch_batch:
  "emailsBatch catchApi [] False False [oldRow, newRow] (Some (asc ''1,2'')) =
     (JsonRows [oldRow, newRow], [SelectBatch [1, 2] False, SelectBatchLegacy [1, 2] False])"
  by (simp add: emailsBatch_def Let_def catchApi_def demoApi_def oldRow_def newRow_def recent_def
      batchIds_def List.map_filter_def parseInt10_def validId_def isDigit_def digitsValue_def
      trim_def isSpace_def asc_def)

lemma catch_detail:
  "emailDetail catchApi [] False False [oldRow, newRow] (asc ''2'') =
     (JsonRow newRow, [SelectDetail (asc ''2'') False, SelectDetailLegacy (asc ''2''),
                       UpdateRead (asc ''2'')],
      [oldRow, newRow\<lparr>is_read := 1\<rparr>])"
  by (simp add: emailDetail_def detailCatch_def Let_def catchApi_def demoApi_def oldRow_def
      newRow_def markRead_def isDigit_def digitsValue_def asc_def)

lemma manyRows_length: "length manyRows = 60"
  by (simp add: manyRows_def)

lemma manyRows_mailbox: "filter (\<lambda>r. mailbox_id r = 7) manyRows = manyRows"
  by (simp add: manyRows_def filter_map o_def newRow_def)

lemma minus_one: "parseInt10 demoApi (asc ''-1'') = Num (- 1)"
  by (simp add: parseInt10_def isSpace_def isDigit_def digitsValue_def asc_def Let_def)

lemma not_a_number: "parseInt10 demoApi (asc ''abc'') = NaN"
  by (simp add: parseInt10_def isSpace_def isDigit_def digitsValue_def asc_def Let_def)

lemma catch_throws: "throws catchApi 0" "\<not> throws catchApi 1"
  by (simp_all add: catchApi_def)

lemma limit_and_batch_bounds:
  "(limitParam = None \<or> limitParam = Some [] \<longrightarrow> listLimit env limitParam = Num 20) \<and>
   (\<forall>l n. limitParam = Some l \<and> l \<noteq> [] \<and> parseInt10 env l = Num n \<longrightarrow>
      listLimit env limitParam = Num (min n 50)) \<and>
   (\<forall>l. limitParam = Some l \<and> l \<noteq> [] \<and> parseInt10 env l = NaN \<longrightarrow>
      listLimit env limitParam = NaN) \<and>
   listLimit env limitParam \<noteq> PosInf \<and>
   (\<forall>n. listLimit env limitParam = Num n \<longrightarrow> n \<le> 50) \<and>
   (\<forall>q \<in> set (snd (emailsList env listRows isMock mbo mailbox limitParam)). \<forall>m b l.
      q = SelectList m b l \<or> q = SelectListLegacy m b l \<longrightarrow> l = listLimit env limitParam) \<and>
   (length (batchIds env (trim idsQuery)) > 50 \<longrightarrow>
      emailsBatch env cutoff isMock mbo rows (Some idsQuery) = (ErrorResponse TooManyIds400, []))"
  using listLimit_absent [of limitParam env] listLimit_num [of _ env] listLimit_nan [of _ env]
    listLimit_bound [of env limitParam]
    emailsList_limits [of _ env listRows isMock mbo mailbox limitParam]
    emailsBatch_too_many [of env idsQuery cutoff isMock mbo rows]
  by blast

section \<open>Facts about the message parser\<close>

lemma splitHeaderBody_skip:
  "LF \<notin> set a \<Longrightarrow> rest = [] \<or> hd rest \<noteq> LF \<Longrightarrow>
   splitHeaderBody (a @ rest) = (case splitHeaderBody rest of (h, b) \<Rightarrow> (a @ h, b))"
proof (induction a)
  case Nil
  then show ?case by (simp split: prod.splits)
next
  case (Cons c a)
  then have c: "c \<noteq> LF" by auto
  have n4: "take 4 (c # a @ rest) \<noteq> CRLF @ CRLF"
  proof (cases "a @ rest")
    case Nil
    then show ?thesis by (simp add: CRLF_def)
  next
    case (Cons d t)
    with Cons.prems have "d \<noteq> LF" by (cases a) auto
    with Cons show ?thesis by (simp add: CRLF_def)
  qed
  have n2: "take 2 (c # a @ rest) \<noteq> [LF, LF]" using c by simp
  from Cons.IH Cons.prems n4 n2 show ?case by (simp split: prod.splits)
qed

lemma splitHeaderBody_line:
  assumes "LF \<notin> set l" "rest \<noteq> []" "hd rest \<noteq> CR" "hd rest \<noteq> LF"
  shows "splitHeaderBody (l @ CRLF @ rest) =
           (case splitHeaderBody rest of (h, b) \<Rightarrow> (l @ CRLF @ h, b))"
proof -
  obtain c r where r: "rest = c # r" using assms(2) by (cases rest) auto
  with assms have c: "c \<noteq> CR" "c \<noteq> LF" by auto
  have "splitHeaderBody (CRLF @ rest) = (case splitHeaderBody rest of (h, b) \<Rightarrow> (CRLF @ h, b))"
    using c by (simp add: r CRLF_def CR_def LF_def split: prod.splits)
  moreover have "splitHeaderBody (l @ (CRLF @ rest)) =
      (case splitHeaderBody (CRLF @ rest) of (h, b) \<Rightarrow> (l @ h, b))"
    using assms(1) by (intro splitHeaderBody_skip) (simp_all add: CRLF_def CR_def LF_def)
  ultimately show ?thesis by (simp split: prod.splits)
qed

lemma splitHeaderBody_last:
  assumes "LF \<notin> set l"
  shows "splitHeaderBody (l @ CRLF @ CRLF @ b) = (l, b)"
proof -
  have "splitHeaderBody (CRLF @ CRLF @ b) = ([], b)"
    by (simp add: CRLF_def)
  moreover have "splitHeaderBody (l @ (CRLF @ CRLF @ b)) =
      (case splitHeaderBody (CRLF @ CRLF @ b) of (h, b) \<Rightarrow> (l @ h, b))"
    using assms by (intro splitHeaderBody_skip) (simp_all add: CRLF_def CR_def LF_def)
  ultimately show ?thesis by simp
qed

lemma splitHeaderBody_lines:
  assumes "\<forall>l \<in> set ls. LF \<notin> set l \<and> l \<noteq> [] \<and> hd l \<noteq> CR" and "LF \<notin> set l0"
  shows "splitHeaderBody (concat (map (\<lambda>l. l @ CRLF) (l0 # ls)) @ CRLF @ b) = (join CRLF (l0 # ls), b)"
  using assms
proof (induction ls arbitrary: l0)
  case Nil
  then show ?case by (simp add: splitHeaderBody_last)
next
  case (Cons l1 ls)
  let ?rest = "concat (map (\<lambda>l. l @ CRLF) (l1 # ls)) @ CRLF @ b"
  from Cons.prems have l1: "LF \<notin> set l1" "l1 \<noteq> []" "hd l1 \<noteq> CR" by auto
  then have h: "?rest \<noteq> []" "hd ?rest \<noteq> CR" "hd ?rest \<noteq> LF"
    by (cases l1; auto)+
  have ih: "splitHeaderBody ?rest = (join CRLF (l1 # ls), b)"
    using Cons.prems by (intro Cons.IH) auto
  have "splitHeaderBody (l0 @ CRLF @ ?rest) =
          (case splitHeaderBody ?rest of (h, b) \<Rightarrow> (l0 @ CRLF @ h, b))"
    using Cons.prems(2) h by (rule splitHeaderBody_line)
  with ih show ?case by simp
qed

lemma splitLines_line: "LF \<notin> set l \<Longrightarrow> splitLines (l @ CRLF @ rest) = l # splitLines rest"
proof (induction l)
  case Nil
  then show ?case by (simp add: CRLF_def CR_def LF_def)
next
  case (Cons c l)
  then have c: "c \<noteq> LF" and l: "LF \<notin> set l" by auto
  obtain d t where dt: "l @ CRLF @ rest = d # t" "d \<noteq> LF"
    using l by (cases l) (auto simp: CRLF_def CR_def LF_def)
  from Cons.IH [OF l] have "splitLines (d # t) = l # splitLines rest" by (simp add: dt)
  with c dt show ?case by simp
qed

lemma splitLines_single: "LF \<notin> set l \<Longrightarrow> splitLines l = [l]"
proof (induction l rule: splitLines.induct)
  case 1
  then show ?case by simp
next
  case (2 c)
  then show ?case by simp
next
  case (3 c d cs)
  then show ?case by auto
qed

lemma splitLines_join:
  "\<forall>l \<in> set (l0 # ls). LF \<notin> set l \<Longrightarrow> splitLines (join CRLF (l0 # ls)) = l0 # ls"
proof (induction ls arbitrary: l0)
  case Nil
  then show ?case by (simp add: splitLines_single)
next
  case (Cons l1 ls)
  then show ?case by (simp add: splitLines_line)
qed

lemma eolNormalize_CRLF: "eolNormalize (t @ CRLF) = eolNormalize t"
  by (simp add: eolNormalize_def CRLF_def CR_def LF_def)

lemmas hdr_eval = headerName_def headerValue_def asc_def trim_def isSpace_def lower_def
  toLowerAscii_def

lemma header_names:
  "headerName (asc ''From: <'' @ x) = asc ''from''"
  "headerName (asc ''To: <'' @ x) = asc ''to''"
  "headerName (asc ''Subject: '' @ x) = asc ''subject''"
  "headerName (asc ''Date: '' @ x) = asc ''date''"
  "headerName (asc ''MIME-Version: 1.0'') = asc ''mime-version''"
  \<open>headerName (asc ''Content-Type: text/plain; charset="utf-8"'') = asc ''content-type''\<close>
  "headerName (asc ''Content-Transfer-Encoding: 8bit'') = asc ''content-transfer-encoding''"
  by (simp_all add: hdr_eval)

lemma header_values:
  \<open>headerValue (asc ''Content-Type: text/plain; charset="utf-8"'') =
     asc ''text/plain; charset="utf-8"''\<close>
  "headerValue (asc ''Content-Transfer-Encoding: 8bit'') = asc ''8bit''"
  by (simp_all add: hdr_eval)

lemma header_colons:
  "0x3A \<in> set (asc ''From: <'' @ x)"
  "0x3A \<in> set (asc ''To: <'' @ x)"
  "0x3A \<in> set (asc ''Subject: '' @ x)"
  "0x3A \<in> set (asc ''Date: '' @ x)"
  "0x3A \<in> set (asc ''MIME-Version: 1.0'')"
  \<open>0x3A \<in> set (asc ''Content-Type: text/plain; charset="utf-8"'')\<close>
  "0x3A \<in> set (asc ''Content-Transfer-Encoding: 8bit'')"
  by (simp_all add: asc_def)

lemma name_distinct:
  "asc ''from'' \<noteq> asc ''content-type''" "asc ''to'' \<noteq> asc ''content-type''"
  "asc ''subject'' \<noteq> asc ''content-type''" "asc ''date'' \<noteq> asc ''content-type''"
  "asc ''mime-version'' \<noteq> asc ''content-type''"
  "asc ''from'' \<noteq> asc ''content-transfer-encoding''"
  "asc ''to'' \<noteq> asc ''content-transfer-encoding''"
  "asc ''subject'' \<noteq> asc ''content-transfer-encoding''"
  "asc ''date'' \<noteq> asc ''content-transfer-encoding''"
  "asc ''mime-version'' \<noteq> asc ''content-transfer-encoding''"
  "asc ''content-type'' \<noteq> asc ''content-transfer-encoding''"
  by (simp_all add: asc_def)

lemma plain_type:
  \<open>kindOf (Some (asc ''text/plain; charset="utf-8"'')) = KText\<close>
  \<open>\<not> startsWith (asc ''multipart/'') (mediaType (asc ''text/plain; charset="utf-8"''))\<close>
  by (simp_all add: kindOf_def mediaType_def startsWith_def asc_def trim_def isSpace_def
      lower_def toLowerAscii_def)

lemma eightbit: "decodeBody cd (Some (asc ''8bit'')) body = body"
  by (simp add: decodeBody_def lower_def toLowerAscii_def asc_def)

lemma buildEml_single:
  "buildEml sndr mbox subj dt bnd text [] =
     concat (map (\<lambda>l. l @ CRLF) (singleHeaders sndr mbox subj dt)) @ CRLF @ (text @ CRLF)"
  by (simp add: buildEml_def emlLines_def singleHeaders_def)

lemma singleHeaders_no_LF:
  assumes "LF \<notin> set sndr" "LF \<notin> set mbox" "LF \<notin> set subj" "LF \<notin> set dt"
  shows "\<forall>l \<in> set (singleHeaders sndr mbox subj dt). LF \<notin> set l \<and> l \<noteq> [] \<and> hd l \<noteq> CR"
  using assms by (simp add: singleHeaders_def asc_def LF_def CR_def)

lemma singleHeaders_find:
  \<open>findHeader (asc ''content-type'') (singleHeaders sndr mbox subj dt) =
     Some (asc ''text/plain; charset="utf-8"'')\<close>
  "findHeader (asc ''content-transfer-encoding'') (singleHeaders sndr mbox subj dt) =
     Some (asc ''8bit'')"
  by (simp_all add: singleHeaders_def header_names header_values header_colons name_distinct)

lemma singleHeaders_Cons: "\<exists>l0 ls. singleHeaders sndr mbox subj dt = l0 # ls"
  by (simp add: singleHeaders_def)

lemma parse_single:
  assumes "LF \<notin> set sndr" "LF \<notin> set mbox" "LF \<notin> set subj" "LF \<notin> set dt"
  shows "parseBody cd (buildEml sndr mbox subj dt bnd text []) = (text @ CRLF, [])"
proof -
  let ?hs = "singleHeaders sndr mbox subj dt"
  obtain l0 ls where hs: "?hs = l0 # ls" using singleHeaders_Cons by blast
  from singleHeaders_no_LF [OF assms] hs
  have nl: "\<forall>l \<in> set ls. LF \<notin> set l \<and> l \<noteq> [] \<and> hd l \<noteq> CR" "LF \<notin> set l0"
    and all: "\<forall>l \<in> set (l0 # ls). LF \<notin> set l"
    by auto
  have sp: "splitHeaderBody (buildEml sndr mbox subj dt bnd text []) =
      (join CRLF ?hs, text @ CRLF)"
    unfolding buildEml_single hs using nl by (rule splitHeaderBody_lines)
  have ln: "splitLines (join CRLF ?hs) = ?hs"
    unfolding hs using all by (rule splitLines_join)
  show ?thesis
    by (simp add: parseBody_def parseEntity_def Let_def sp ln singleHeaders_find
        plain_type eightbit)
qed

lemma injected_parse:
  \<open>parseBody idCodec injected =
     (asc ''you'' @ CRLF @ asc ''Date: Tue, 03 Nov 2026 11:00:00 GMT'' @ CRLF @
      asc ''MIME-Version: 1.0'' @ CRLF @
      asc ''Content-Type: text/plain; charset="utf-8"'' @ CRLF @
      asc ''Content-Transfer-Encoding: 8bit'' @ CRLF @ CRLF @ asc ''Hello'' @ CRLF, [])\<close>
  by code_simp

section \<open>The claims\<close>

text \<open>
  C1. When the \<open>html\<close> field is not empty, the envelope is: the headers From, To,
  Subject, Date, MIME-Version: 1.0 and Content-Type: multipart/alternative with the
  boundary as parameter, an empty line, the line \<open>--boundary\<close>, the headers of a
  text/plain part, an empty line and the text, the line \<open>--boundary\<close>, the headers of
  a text/html part, an empty line and the html, and the closing line \<open>--boundary--\<close>.
\<close>

theorem multipart_envelope:
  assumes "html \<noteq> []"
  shows \<open>buildEml sndr mbox subj dt bnd text html =
     asc ''From: <'' @ sndr @ asc ''>'' @ CRLF @
     asc ''To: <'' @ mbox @ asc ''>'' @ CRLF @
     asc ''Subject: '' @ subj @ CRLF @
     asc ''Date: '' @ dt @ CRLF @
     asc ''MIME-Version: 1.0'' @ CRLF @
     asc ''Content-Type: multipart/alternative; boundary="'' @ bnd @ asc ''"'' @ CRLF @
     CRLF @
     asc ''--'' @ bnd @ CRLF @
     asc ''Content-Type: text/plain; charset="utf-8"'' @ CRLF @
     asc ''Content-Transfer-Encoding: 8bit'' @ CRLF @
     CRLF @
     text @ CRLF @
     asc ''--'' @ bnd @ CRLF @
     asc ''Content-Type: text/html; charset="utf-8"'' @ CRLF @
     asc ''Content-Transfer-Encoding: 8bit'' @ CRLF @
     CRLF @
     html @ CRLF @
     asc ''--'' @ bnd @ asc ''--'' @ CRLF\<close>
  using assms by (simp add: buildEml_def emlLines_def)

theorem multipart_envelope_witness:
  \<open>asc ''<b>Hi</b>'' \<noteq> [] \<and>
   buildEml (asc ''a@x.io'') (asc ''b@y.io'') (asc ''Hey'') (asc ''Tue, 03 Nov 2026 11:00:00 GMT'')
       (asc ''mf-1'') (asc ''Hello'') (asc ''<b>Hi</b>'') =
     asc ''From: <a@x.io>'' @ CRLF @
     asc ''To: <b@y.io>'' @ CRLF @
     asc ''Subject: Hey'' @ CRLF @
     asc ''Date: Tue, 03 Nov 2026 11:00:00 GMT'' @ CRLF @
     asc ''MIME-Version: 1.0'' @ CRLF @
     asc ''Content-Type: multipart/alternative; boundary="mf-1"'' @ CRLF @
     CRLF @
     asc ''--mf-1'' @ CRLF @
     asc ''Content-Type: text/plain; charset="utf-8"'' @ CRLF @
     asc ''Content-Transfer-Encoding: 8bit'' @ CRLF @
     CRLF @
     asc ''Hello'' @ CRLF @
     asc ''--mf-1'' @ CRLF @
     asc ''Content-Type: text/html; charset="utf-8"'' @ CRLF @
     asc ''Content-Transfer-Encoding: 8bit'' @ CRLF @
     CRLF @
     asc ''<b>Hi</b>'' @ CRLF @
     asc ''--mf-1--'' @ CRLF\<close>
proof -
  have h: \<open>asc ''<b>Hi</b>'' \<noteq> []\<close> by (simp add: asc_def)
  show ?thesis
    using h multipart_envelope [OF h, of "asc ''a@x.io''" "asc ''b@y.io''" "asc ''Hey''"
        "asc ''Tue, 03 Nov 2026 11:00:00 GMT''" "asc ''mf-1''" "asc ''Hello''"]
    by (simp add: asc_def)
qed

text \<open>
  C3 as stated fails: the builder copies the text as it is, so a text with a bare line
  feed gives a message in which the line before that line feed does not end in CRLF.
\<close>

theorem bare_line_feed_counterexample:
  "\<not> crlfOnly (buildEml (asc ''a@x.io'') (asc ''b@y.io'') (asc ''Hey'')
        (asc ''Tue, 03 Nov 2026 11:00:00 GMT'') (asc ''mf-1'')
        (asc ''line1'' @ [LF] @ asc ''line2'') [])"
  by code_simp

text \<open>
  C3, as the code has it. When the \<open>html\<close> field is empty, the envelope is a single
  part with the header Content-Type: text/plain; charset="utf-8" whose body is the text.
  In both shapes the array the builder joins ends with the empty string, so the message
  is the builder's lines, each followed by CRLF. The fields are copied as they are: when
  the line breaks inside the sender, the recipient, the subject, the date, the boundary,
  the text and the html are CRLF, every line break of the message is CRLF.
\<close>

theorem singlepart_envelope_crlf:
  \<open>(html = [] \<longrightarrow>
      buildEml sndr mbox subj dt bnd text html =
        asc ''From: <'' @ sndr @ asc ''>'' @ CRLF @
        asc ''To: <'' @ mbox @ asc ''>'' @ CRLF @
        asc ''Subject: '' @ subj @ CRLF @
        asc ''Date: '' @ dt @ CRLF @
        asc ''MIME-Version: 1.0'' @ CRLF @
        asc ''Content-Type: text/plain; charset="utf-8"'' @ CRLF @
        asc ''Content-Transfer-Encoding: 8bit'' @ CRLF @
        CRLF @
        text @ CRLF) \<and>
   last (emlLines sndr mbox subj dt bnd text html) = [] \<and>
   buildEml sndr mbox subj dt bnd text html =
     concat (map (\<lambda>l. l @ CRLF) (butlast (emlLines sndr mbox subj dt bnd text html))) \<and>
   (crlfOnly sndr \<and> crlfOnly mbox \<and> crlfOnly subj \<and> crlfOnly dt \<and> crlfOnly bnd \<and>
    crlfOnly text \<and> crlfOnly html \<longrightarrow>
      crlfOnly (buildEml sndr mbox subj dt bnd text html))\<close>
proof (intro conjI impI)
  assume "html = []"
  then show \<open>buildEml sndr mbox subj dt bnd text html =
        asc ''From: <'' @ sndr @ asc ''>'' @ CRLF @
        asc ''To: <'' @ mbox @ asc ''>'' @ CRLF @
        asc ''Subject: '' @ subj @ CRLF @
        asc ''Date: '' @ dt @ CRLF @
        asc ''MIME-Version: 1.0'' @ CRLF @
        asc ''Content-Type: text/plain; charset="utf-8"'' @ CRLF @
        asc ''Content-Transfer-Encoding: 8bit'' @ CRLF @
        CRLF @
        text @ CRLF\<close>
    by (simp add: buildEml_def emlLines_def)
next
  show "last (emlLines sndr mbox subj dt bnd text html) = []"
    by (rule emlLines_last)
next
  show "buildEml sndr mbox subj dt bnd text html =
     concat (map (\<lambda>l. l @ CRLF) (butlast (emlLines sndr mbox subj dt bnd text html)))"
    by (rule buildEml_terminated)
next
  assume a: "crlfOnly sndr \<and> crlfOnly mbox \<and> crlfOnly subj \<and> crlfOnly dt \<and> crlfOnly bnd \<and>
    crlfOnly text \<and> crlfOnly html"
  then have "\<forall>l \<in> set (emlLines sndr mbox subj dt bnd text html). crlfOnly l"
    by (intro emlLines_crlfOnly) simp_all
  then have "\<And>l. l \<in> set (butlast (emlLines sndr mbox subj dt bnd text html)) \<Longrightarrow> crlfOnly l"
    by (meson in_set_butlastD)
  then show "crlfOnly (buildEml sndr mbox subj dt bnd text html)"
    unfolding buildEml_terminated by (rule crlfOnly_concat_lines)
qed



theorem singlepart_envelope_crlf_witness:
  \<open>buildEml (asc ''a@x.io'') (asc ''b@y.io'') (asc ''Hey'') (asc ''Tue, 03 Nov 2026 11:00:00 GMT'')
       (asc ''mf-1'') (asc ''Hello'') [] =
     asc ''From: <'' @ asc ''a@x.io'' @ asc ''>'' @ CRLF @
     asc ''To: <'' @ asc ''b@y.io'' @ asc ''>'' @ CRLF @
     asc ''Subject: '' @ asc ''Hey'' @ CRLF @
     asc ''Date: '' @ asc ''Tue, 03 Nov 2026 11:00:00 GMT'' @ CRLF @
     asc ''MIME-Version: 1.0'' @ CRLF @
     asc ''Content-Type: text/plain; charset="utf-8"'' @ CRLF @
     asc ''Content-Transfer-Encoding: 8bit'' @ CRLF @
     CRLF @
     asc ''Hello'' @ CRLF \<and>
   crlfOnly (buildEml (asc ''a@x.io'') (asc ''b@y.io'') (asc ''Hey'')
       (asc ''Tue, 03 Nov 2026 11:00:00 GMT'') (asc ''mf-1'') (asc ''Hello'') [])\<close>
proof -
  have h: "crlfOnly (asc ''a@x.io'') \<and> crlfOnly (asc ''b@y.io'') \<and> crlfOnly (asc ''Hey'') \<and>
   crlfOnly (asc ''Tue, 03 Nov 2026 11:00:00 GMT'') \<and> crlfOnly (asc ''mf-1'') \<and>
   crlfOnly (asc ''Hello'') \<and> crlfOnly []"
    by (simp add: asc_def CR_def LF_def)
  have e: "([]::jsstring) = []" by simp
  show ?thesis
    using h e singlepart_envelope_crlf [of "[]" "asc ''a@x.io''" "asc ''b@y.io''" "asc ''Hey''"
        "asc ''Tue, 03 Nov 2026 11:00:00 GMT''" "asc ''mf-1''" "asc ''Hello''"]
    by blast
qed

text \<open>
  C6. When the code extractor throws on the fields of the payload, the receiver does
  what it does with an extractor that returns the empty string: the same response and
  the same row, whose verification code is null.
\<close>

theorem extraction_failure_is_no_code:
  assumes "\<forall>to from subj text html.
             fieldsOf env p = Some (to, from, subj, text, html) \<longrightarrow>
             extractVerificationCode env subj text html = None"
  shows "handleEmailReceive env d b p =
           handleEmailReceive (env\<lparr>extractVerificationCode := \<lambda>_ _ _. Some []\<rparr>) d b p \<and>
         (\<forall>m. handleEmailReceive env d b p = Inr m \<longrightarrow> verification_code m = None)"
proof (cases "fieldsOf env p")
  case None
  then show ?thesis by (simp add: handleEmailReceive_def fieldsOf_env_irrelevant)
next
  case (Some flds)
  obtain to "from" subj "text" html where f: "flds = (to, from, subj, text, html)"
    by (cases flds) auto
  with Some assms have "extractVerificationCode env subj text html = None" by blast
  from receiveRow_code_threw [OF this] Some f show ?thesis
    by (auto simp: handleEmailReceive_def fieldsOf_env_irrelevant split: option.splits)
qed

theorem extraction_failure_is_no_code_witness:
  "fieldsOf demoEnv demoPayload =
     Some (asc ''b@y.io'', asc ''a@x.io'', noSubject, asc ''  hi   there '', []) \<and>
   extractVerificationCode demoEnv noSubject (asc ''  hi   there '') [] = None \<and>
   handleEmailReceive demoEnv [] [] demoPayload =
     Inr (receiveRow demoEnv [] []
            (asc ''b@y.io'', asc ''a@x.io'', noSubject, asc ''  hi   there '', []) 7) \<and>
   handleEmailReceive demoEnv [] [] demoPayload =
     handleEmailReceive (demoEnv\<lparr>extractVerificationCode := \<lambda>_ _ _. Some []\<rparr>) [] [] demoPayload \<and>
   verification_code (receiveRow demoEnv [] []
       (asc ''b@y.io'', asc ''a@x.io'', noSubject, asc ''  hi   there '', []) 7) = None"
proof -
  have x: "extractVerificationCode demoEnv noSubject (asc ''  hi   there '') [] = None"
    by (simp add: demoEnv_def)
  have h: "\<forall>to from subj text html.
             fieldsOf demoEnv demoPayload = Some (to, from, subj, text, html) \<longrightarrow>
             extractVerificationCode demoEnv subj text html = None"
    by (simp add: demoEnv_def)
  from extraction_failure_is_no_code [OF h, of "[]" "[]"] demo_handle [of "[]" "[]"]
    demo_fieldsOf x
  show ?thesis by simp
qed

text \<open>
  C7 as stated fails: the conversion \<open>String(v)\<close> of a field can throw. For a payload
  whose text is an object with an own property \<open>toString\<close> no field value comes out
  and the handler answers 500.
\<close>

theorem coercion_throws_counterexample:
  "getField throwingPayload (asc ''text'') = Some (JObj [(asc ''toString'', JNum 1)]) \<and>
   textOf demoEnv throwingPayload = None \<and>
   handleEmailReceive demoEnv [] [] throwingPayload = Inl ProcessingFailed"
  by (simp add: throwing_text handleEmailReceive_def fieldsOf_def split: option.splits)

text \<open>
  C7, as the code has it. Each of \<open>to\<close>, \<open>from\<close>, \<open>text\<close> and \<open>html\<close> is the empty
  string when the payload field is missing or falsy, \<open>subject\<close> is the placeholder
  then, and each is \<open>String(v)\<close> of the field otherwise. That conversion gives a string
  value itself, and it throws exactly for an object with an own property \<open>toString\<close>
  and for an array that holds one at any depth. When a conversion throws the handler
  answers 500 and inserts nothing. When the handler inserts a row, all five fields are
  strings, the stored sender is the normalised \<open>from\<close>, and the envelope begins with
  the From and To headers holding the normalised addresses in angle brackets.
\<close>

theorem payload_fields_and_address_headers:
  "(absentOrFalsy env p (asc ''to'') \<longrightarrow> toOf env p = Some []) \<and>
   (absentOrFalsy env p (asc ''from'') \<longrightarrow> fromOf env p = Some []) \<and>
   (absentOrFalsy env p (asc ''subject'') \<longrightarrow> subjectOf env p = Some noSubject) \<and>
   (absentOrFalsy env p (asc ''text'') \<longrightarrow> textOf env p = Some []) \<and>
   (absentOrFalsy env p (asc ''html'') \<longrightarrow> htmlOf env p = Some []) \<and>
   (\<not> absentOrFalsy env p (asc ''to'') \<longrightarrow>
      toOf env p = toString env (the (getField p (asc ''to'')))) \<and>
   (\<not> absentOrFalsy env p (asc ''from'') \<longrightarrow>
      fromOf env p = toString env (the (getField p (asc ''from'')))) \<and>
   (\<not> absentOrFalsy env p (asc ''subject'') \<longrightarrow>
      subjectOf env p = toString env (the (getField p (asc ''subject'')))) \<and>
   (\<not> absentOrFalsy env p (asc ''text'') \<longrightarrow>
      textOf env p = toString env (the (getField p (asc ''text'')))) \<and>
   (\<not> absentOrFalsy env p (asc ''html'') \<longrightarrow>
      htmlOf env p = toString env (the (getField p (asc ''html'')))) \<and>
   (\<forall>s. toString env (JStr s) = Some s) \<and>
   (\<forall>v. toString env v = None \<longleftrightarrow> \<not> convertible v) \<and>
   (toOf env p = None \<or> fromOf env p = None \<or> subjectOf env p = None \<or>
    textOf env p = None \<or> htmlOf env p = None \<longrightarrow>
      handleEmailReceive env d b p = Inl ProcessingFailed) \<and>
   (\<forall>m. handleEmailReceive env d b p = Inr m \<longrightarrow>
      toOf env p \<noteq> None \<and> fromOf env p \<noteq> None \<and> subjectOf env p \<noteq> None \<and>
      textOf env p \<noteq> None \<and> htmlOf env p \<noteq> None \<and>
      sender m = extractEmail env (the (fromOf env p)) \<and>
      (\<exists>rest. eml_content m =
         Some (asc ''From: <'' @ extractEmail env (the (fromOf env p)) @ asc ''>'' @ CRLF @
               asc ''To: <'' @ extractEmail env (the (toOf env p)) @ asc ''>'' @ CRLF @ rest)))"
proof -
  have row: "sender (receiveRow env d b (to, from, subj, text, html) mid) = extractEmail env from \<and>
      (\<exists>rest. eml_content (receiveRow env d b (to, from, subj, text, html) mid) =
         Some (asc ''From: <'' @ extractEmail env from @ asc ''>'' @ CRLF @
               asc ''To: <'' @ extractEmail env to @ asc ''>'' @ CRLF @ rest))"
    for to "from" subj "text" html mid
    unfolding receiveRow_eml using buildEml_address_headers
    by (simp add: receiveRow_def Let_def)
  have ok: "\<forall>m. handleEmailReceive env d b p = Inr m \<longrightarrow>
      toOf env p \<noteq> None \<and> fromOf env p \<noteq> None \<and> subjectOf env p \<noteq> None \<and>
      textOf env p \<noteq> None \<and> htmlOf env p \<noteq> None \<and>
      sender m = extractEmail env (the (fromOf env p)) \<and>
      (\<exists>rest. eml_content m =
         Some (asc ''From: <'' @ extractEmail env (the (fromOf env p)) @ asc ''>'' @ CRLF @
               asc ''To: <'' @ extractEmail env (the (toOf env p)) @ asc ''>'' @ CRLF @ rest))"
  proof (intro allI impI)
    fix m
    assume "handleEmailReceive env d b p = Inr m"
    then obtain flds mid where f: "fieldsOf env p = Some flds"
      and m: "m = receiveRow env d b flds mid"
      unfolding handle_Inr by blast
    obtain to "from" subj "text" html where t: "flds = (to, from, subj, text, html)"
      by (cases flds) auto
    from f t have s: "toOf env p = Some to" "fromOf env p = Some from"
      "subjectOf env p = Some subj" "textOf env p = Some text" "htmlOf env p = Some html"
      by (simp_all add: fieldsOf_Some)
    from row [of to "from" subj "text" html mid] show
      "toOf env p \<noteq> None \<and> fromOf env p \<noteq> None \<and> subjectOf env p \<noteq> None \<and>
       textOf env p \<noteq> None \<and> htmlOf env p \<noteq> None \<and>
       sender m = extractEmail env (the (fromOf env p)) \<and>
       (\<exists>rest. eml_content m =
         Some (asc ''From: <'' @ extractEmail env (the (fromOf env p)) @ asc ''>'' @ CRLF @
               asc ''To: <'' @ extractEmail env (the (toOf env p)) @ asc ''>'' @ CRLF @ rest))"
      by (simp add: s m t)
  qed
  have bad: "toOf env p = None \<or> fromOf env p = None \<or> subjectOf env p = None \<or>
    textOf env p = None \<or> htmlOf env p = None \<longrightarrow>
      handleEmailReceive env d b p = Inl ProcessingFailed"
    using fieldsOf_None [of env p] by (auto simp: handleEmailReceive_def)
  have conv: "\<forall>v. toString env v = None \<longleftrightarrow> \<not> convertible v"
    by (simp add: toString_throws_iff)
  from ok bad conv show ?thesis
    by (simp add: toOf_def fromOf_def subjectOf_def textOf_def htmlOf_def
        stringOr_default stringOr_value)
qed

theorem payload_fields_and_address_headers_witness:
  "absentOrFalsy demoEnv mixedPayload (asc ''subject'') \<and>
   absentOrFalsy demoEnv mixedPayload (asc ''html'') \<and>
   \<not> absentOrFalsy demoEnv mixedPayload (asc ''to'') \<and>
   \<not> absentOrFalsy demoEnv mixedPayload (asc ''from'') \<and>
   \<not> absentOrFalsy demoEnv mixedPayload (asc ''text'') \<and>
   subjectOf demoEnv mixedPayload = Some noSubject \<and>
   htmlOf demoEnv mixedPayload = Some [] \<and>
   toOf demoEnv mixedPayload = Some (asc ''b@y.io'') \<and>
   fromOf demoEnv mixedPayload = Some (asc ''a@x.io'') \<and>
   textOf demoEnv mixedPayload = Some (asc ''true'') \<and>
   handleEmailReceive demoEnv [] [] mixedPayload =
     Inr (receiveRow demoEnv [] [] (asc ''b@y.io'', asc ''a@x.io'', noSubject, asc ''true'', []) 7) \<and>
   sender (receiveRow demoEnv [] []
             (asc ''b@y.io'', asc ''a@x.io'', noSubject, asc ''true'', []) 7) = asc ''a@x.io'' \<and>
   (\<exists>rest. eml_content (receiveRow demoEnv [] []
               (asc ''b@y.io'', asc ''a@x.io'', noSubject, asc ''true'', []) 7) =
      Some (asc ''From: <'' @ asc ''a@x.io'' @ asc ''>'' @ CRLF @
            asc ''To: <'' @ asc ''b@y.io'' @ asc ''>'' @ CRLF @ rest)) \<and>
   \<not> absentOrFalsy demoEnv throwingPayload (asc ''text'') \<and>
   \<not> convertible (JObj [(asc ''toString'', JNum 1) :: jsstring \<times> nat json]) \<and>
   textOf demoEnv throwingPayload = None \<and>
   handleEmailReceive demoEnv [] [] throwingPayload = Inl ProcessingFailed"
proof -
  let ?R = "receiveRow demoEnv [] [] (asc ''b@y.io'', asc ''a@x.io'', noSubject, asc ''true'', []) 7"
  have e: "extractEmail demoEnv = (\<lambda>s. s)" by (simp add: demoEnv_def)
  note T = payload_fields_and_address_headers [of demoEnv mixedPayload "[]" "[]"]
  note U = payload_fields_and_address_headers [of demoEnv throwingPayload "[]" "[]"]
  from T mixed_absent have d: "subjectOf demoEnv mixedPayload = Some noSubject"
    "htmlOf demoEnv mixedPayload = Some []"
    by blast+
  from T mixed_absent have "toOf demoEnv mixedPayload =
      toString demoEnv (the (getField mixedPayload (asc ''to'')))"
    "fromOf demoEnv mixedPayload = toString demoEnv (the (getField mixedPayload (asc ''from'')))"
    "textOf demoEnv mixedPayload = toString demoEnv (the (getField mixedPayload (asc ''text'')))"
    by blast+
  then have v: "toOf demoEnv mixedPayload = Some (asc ''b@y.io'')"
    "fromOf demoEnv mixedPayload = Some (asc ''a@x.io'')"
    "textOf demoEnv mixedPayload = Some (asc ''true'')"
    by (simp_all add: mixed_values)
  from T mixed_handle [of "[]" "[]"]
  have "sender ?R = extractEmail demoEnv (the (fromOf demoEnv mixedPayload)) \<and>
      (\<exists>rest. eml_content ?R =
         Some (asc ''From: <'' @ extractEmail demoEnv (the (fromOf demoEnv mixedPayload)) @
               asc ''>'' @ CRLF @
               asc ''To: <'' @ extractEmail demoEnv (the (toOf demoEnv mixedPayload)) @
               asc ''>'' @ CRLF @ rest))"
    by blast
  then have A: "sender ?R = asc ''a@x.io'' \<and>
      (\<exists>rest. eml_content ?R =
         Some (asc ''From: <'' @ asc ''a@x.io'' @ asc ''>'' @ CRLF @
               asc ''To: <'' @ asc ''b@y.io'' @ asc ''>'' @ CRLF @ rest))"
    unfolding e v option.sel by this
  from U throwing_text have B: "handleEmailReceive demoEnv [] [] throwingPayload = Inl ProcessingFailed"
    by blast
  from A B d v mixed_absent mixed_handle [of "[]" "[]"] throwing_text show ?thesis
    by blast
qed

text \<open>
  C8. The stored preview is the text, or the stripped html when the text is empty, with
  each run of white space replaced by one space, trimmed, and cut to 120 code units;
  it is null when that is empty, which is when the source string is blank. A stored
  preview is not empty, has at most 120 code units, has no white space but single
  spaces and does not begin with one.
\<close>

theorem stored_preview:
  assumes "handleEmailReceive env d b p = Inr m"
  shows "textOf env p \<noteq> None \<and> htmlOf env p \<noteq> None \<and>
         preview m =
           orNull (take 120 (trim (collapseWs
             (if the (textOf env p) \<noteq> [] then the (textOf env p)
              else stripHtml env (the (htmlOf env p)))))) \<and>
         (\<forall>s. preview m = Some s \<longrightarrow>
            s \<noteq> [] \<and> length s \<le> 120 \<and> singleSpaced s \<and> \<not> isSpace (hd s)) \<and>
         (preview m = None \<longleftrightarrow>
            (\<forall>c \<in> set (if the (textOf env p) \<noteq> [] then the (textOf env p)
                         else stripHtml env (the (htmlOf env p))). isSpace c))"
proof -
  from assms obtain flds mid where f: "fieldsOf env p = Some flds"
    and r: "m = receiveRow env d b flds mid"
    unfolding handle_Inr by blast
  obtain to "from" subj tx html where t: "flds = (to, from, subj, tx, html)"
    by (cases flds) auto
  from f t have s: "textOf env p = Some tx" "htmlOf env p = Some html"
    by (simp_all add: fieldsOf_Some)
  let ?pv = "previewOf env tx html"
  from r t have m: "preview m = orNull ?pv"
    by (simp add: receiveRow_def Let_def)
  have 1: "?pv = take 120 (trim (collapseWs (if tx \<noteq> [] then tx else stripHtml env html)))"
    by (simp add: previewOf_def Let_def)
  have 2: "\<forall>s. preview m = Some s \<longrightarrow>
            s \<noteq> [] \<and> length s \<le> 120 \<and> singleSpaced s \<and> \<not> isSpace (hd s)"
    using previewOf_props(1-3) [of env tx html]
    by (auto simp: m orNull_def split: if_splits)
  have 3: "preview m = None \<longleftrightarrow>
            (\<forall>c \<in> set (if tx \<noteq> [] then tx else stripHtml env html). isSpace c)"
    using previewOf_props(4) [of env tx html]
    by (simp add: m orNull_def)
  from m [unfolded 1] 2 3 show ?thesis unfolding s option.sel by blast
qed

theorem stored_preview_witness:
  "handleEmailReceive demoEnv [] [] demoPayload =
     Inr (receiveRow demoEnv [] []
            (asc ''b@y.io'', asc ''a@x.io'', noSubject, asc ''  hi   there '', []) 7) \<and>
   preview (receiveRow demoEnv [] []
              (asc ''b@y.io'', asc ''a@x.io'', noSubject, asc ''  hi   there '', []) 7) =
     Some (asc ''hi there'') \<and>
   asc ''hi there'' \<noteq> [] \<and> length (asc ''hi there'') \<le> 120 \<and>
   singleSpaced (asc ''hi there'') \<and> \<not> isSpace (hd (asc ''hi there''))"
proof -
  let ?R = "receiveRow demoEnv [] []
              (asc ''b@y.io'', asc ''a@x.io'', noSubject, asc ''  hi   there '', []) 7"
  have c: "orNull (take 120 (trim (collapseWs (asc ''  hi   there '')))) = Some (asc ''hi there'')"
    by (simp add: collapse_demo orNull_def) (simp add: asc_def)
  have t: "asc ''  hi   there '' \<noteq> []" by (simp add: asc_def)
  note T = stored_preview [OF demo_handle [of "[]" "[]"]]
  from T have "preview ?R =
      orNull (take 120 (trim (collapseWs
        (if the (textOf demoEnv demoPayload) \<noteq> [] then the (textOf demoEnv demoPayload)
         else stripHtml demoEnv (the (htmlOf demoEnv demoPayload))))))"
    by blast
  then have P: "preview ?R = Some (asc ''hi there'')"
    by (simp only: demo_fields option.sel t simp_thms if_True c)
  from T P have "asc ''hi there'' \<noteq> [] \<and> length (asc ''hi there'') \<le> 120 \<and>
      singleSpaced (asc ''hi there'') \<and> \<not> isSpace (hd (asc ''hi there''))"
    by blast
  with P demo_handle [of "[]" "[]"] show ?thesis by blast
qed

text \<open>
  C5 as stated fails on the single-message path: for a row without raw message whose
  older column \<open>content\<close> is filled, the content returned is that column, not the
  stored preview.
\<close>

theorem preview_fallback_counterexample:
  "parsedBody demoApi oldRow = ([], []) \<and> eml_content oldRow = None \<and>
   preview oldRow = Some (asc ''old preview'') \<and>
   fst (emailDetail demoApi [] False False [oldRow, newRow] (asc ''1'')) =
     JsonDetail oldRow (asc ''old body'') [] [] \<and>
   asc ''old body'' \<noteq> asc ''old preview''"
  by (simp add: demo_detail_old demo_parsed) (simp add: oldRow_def asc_def)

text \<open>
  C5, as the code has it. On the main path of a handler (its first SELECT, and in the
  single-message handler the UPDATE, does not throw) take an answered row whose raw
  message gives no text and no html: the parser returned two empty strings, or threw, or
  there is no raw message. If the raw message is there, it is the text content of the
  answer. If it is not, the batch handler answers with the stored preview (the empty
  string without one); the single-message handler first reads the older columns
  \<open>content\<close> and \<open>html_content\<close> of the row and answers with them when one is not empty,
  and answers with the stored preview only when that read throws or finds nothing. The
  main path is the one taken, outside mock mode, when those calls do not throw and the
  request passed the checks of the handler (a list of one to fifty valid ids; a row
  found for the id). When the first SELECT (or the UPDATE) throws, the handlers answer
  with the rows as the older statement selects them, or with an error, and there is no
  such chain. A parser that throws changes no response: both handlers answer as with a
  parser that returns two empty strings.
\<close>

theorem body_fallback_chain:
  "(\<forall>ds tr row c h.
      emailsBatch env cutoff isMock mbo rows idsQuery = (JsonDetails ds, tr) \<and>
      (row, c, h) \<in> set ds \<and> parsedBody env row = ([], []) \<longrightarrow>
        (truthyStr (eml_content row) \<longrightarrow> c = the (eml_content row) \<and> h = []) \<and>
        (\<not> truthyStr (eml_content row) \<longrightarrow>
           c = (if truthyStr (preview row) then the (preview row) else []) \<and> h = [])) \<and>
   (\<forall>q. idsQuery = Some q \<and> trim q \<noteq> [] \<and> batchIds env (trim q) \<noteq> [] \<and>
        length (batchIds env (trim q)) \<le> 50 \<and> \<not> isMock \<longrightarrow>
      (\<not> throws env 0 \<longrightarrow>
         fst (emailsBatch env cutoff isMock mbo rows idsQuery) =
           JsonDetails (map (batchContent env)
             (filter (\<lambda>r. row_id r \<in> set (batchIds env (trim q)) \<and> recent env cutoff mbo r) rows))) \<and>
      (throws env 0 \<longrightarrow>
         fst (emailsBatch env cutoff isMock mbo rows idsQuery) =
           (if throws env 1 then ErrorResponse BatchFailed500
            else JsonRows (filter (\<lambda>r. row_id r \<in> set (batchIds env (trim q)) \<and>
                                        recent env cutoff mbo r) rows)))) \<and>
   (\<forall>row c h dl tr rows'.
      emailDetail env cutoff isMock mbo rows emailId = (JsonDetail row c h dl, tr, rows') \<and>
      parsedBody env row = ([], []) \<longrightarrow>
        (truthyStr (eml_content row) \<longrightarrow> c = the (eml_content row) \<and> h = []) \<and>
        (\<not> truthyStr (eml_content row) \<longrightarrow>
           (let legacy = (if throws env 2 then []
                          else filter (\<lambda>r. idEq env emailId (row_id r)) rows')
            in if legacy \<noteq> [] \<and>
                  (truthyStr (content (hd legacy)) \<or> truthyStr (html_content (hd legacy)))
               then c = (if truthyStr (content (hd legacy))
                         then the (content (hd legacy)) else []) \<and>
                    h = (if truthyStr (html_content (hd legacy))
                         then the (html_content (hd legacy)) else [])
               else c = (if truthyStr (preview row) then the (preview row) else []) \<and>
                    h = []))) \<and>
   (\<not> isMock \<and> \<not> throws env 0 \<and> \<not> throws env 1 \<and>
    filter (\<lambda>r. idEq env emailId (row_id r) \<and> recent env cutoff mbo r) rows \<noteq> [] \<longrightarrow>
      (\<exists>c h dl tr rows'. emailDetail env cutoff isMock mbo rows emailId =
         (JsonDetail (hd (filter (\<lambda>r. idEq env emailId (row_id r) \<and>
                                     recent env cutoff mbo r) rows)) c h dl, tr, rows'))) \<and>
   (\<not> isMock \<and>
    (throws env 0 \<or>
     (filter (\<lambda>r. idEq env emailId (row_id r) \<and> recent env cutoff mbo r) rows \<noteq> [] \<and>
      throws env 1)) \<longrightarrow>
      fst (emailDetail env cutoff isMock mbo rows emailId) = Thrown \<or>
      fst (emailDetail env cutoff isMock mbo rows emailId) = ErrorResponse NotFound404 \<or>
      fst (emailDetail env cutoff isMock mbo rows emailId) =
        JsonRow (hd (filter (\<lambda>r. idEq env emailId (row_id r)) rows))) \<and>
   parsedBody (swallowParse env) row0 = parsedBody env row0 \<and>
   emailsBatch (swallowParse env) cutoff isMock mbo rows idsQuery =
     emailsBatch env cutoff isMock mbo rows idsQuery \<and>
   emailDetail (swallowParse env) cutoff isMock mbo rows emailId =
     emailDetail env cutoff isMock mbo rows emailId"
proof -
  have b1: "\<forall>ds tr row c h.
      emailsBatch env cutoff isMock mbo rows idsQuery = (JsonDetails ds, tr) \<and>
      (row, c, h) \<in> set ds \<and> parsedBody env row = ([], []) \<longrightarrow>
        (truthyStr (eml_content row) \<longrightarrow> c = the (eml_content row) \<and> h = []) \<and>
        (\<not> truthyStr (eml_content row) \<longrightarrow>
           c = (if truthyStr (preview row) then the (preview row) else []) \<and> h = [])"
    using batch_entry [of env cutoff isMock mbo rows idsQuery] by blast
  have b2: "\<forall>q. idsQuery = Some q \<and> trim q \<noteq> [] \<and> batchIds env (trim q) \<noteq> [] \<and>
        length (batchIds env (trim q)) \<le> 50 \<and> \<not> isMock \<longrightarrow>
      (\<not> throws env 0 \<longrightarrow>
         fst (emailsBatch env cutoff isMock mbo rows idsQuery) =
           JsonDetails (map (batchContent env)
             (filter (\<lambda>r. row_id r \<in> set (batchIds env (trim q)) \<and> recent env cutoff mbo r) rows))) \<and>
      (throws env 0 \<longrightarrow>
         fst (emailsBatch env cutoff isMock mbo rows idsQuery) =
           (if throws env 1 then ErrorResponse BatchFailed500
            else JsonRows (filter (\<lambda>r. row_id r \<in> set (batchIds env (trim q)) \<and>
                                        recent env cutoff mbo r) rows)))"
    using batch_reaches_main [of _ env isMock cutoff mbo rows]
      batch_catch [of _ env isMock cutoff mbo rows]
    by (intro allI impI conjI) (simp_all del: One_nat_def)
  have s1: "\<forall>row c h dl tr rows'.
      emailDetail env cutoff isMock mbo rows emailId = (JsonDetail row c h dl, tr, rows') \<and>
      parsedBody env row = ([], []) \<longrightarrow>
        (truthyStr (eml_content row) \<longrightarrow> c = the (eml_content row) \<and> h = []) \<and>
        (\<not> truthyStr (eml_content row) \<longrightarrow>
           (let legacy = (if throws env 2 then []
                          else filter (\<lambda>r. idEq env emailId (row_id r)) rows')
            in if legacy \<noteq> [] \<and>
                  (truthyStr (content (hd legacy)) \<or> truthyStr (html_content (hd legacy)))
               then c = (if truthyStr (content (hd legacy))
                         then the (content (hd legacy)) else []) \<and>
                    h = (if truthyStr (html_content (hd legacy))
                         then the (html_content (hd legacy)) else [])
               else c = (if truthyStr (preview row) then the (preview row) else []) \<and>
                    h = []))"
    using detail_raw [of env cutoff isMock mbo rows emailId]
      detail_no_raw [of env cutoff isMock mbo rows emailId]
    by blast
  from b1 b2 s1
    detail_reaches_main [of isMock env emailId cutoff mbo rows]
    detail_catch [of isMock env emailId cutoff mbo rows]
  show ?thesis
    by (intro conjI parsedBody_swallow emailsBatch_swallow emailDetail_swallow) blast+
qed

theorem body_fallback_chain_witness:
  "emailsBatch demoApi [] False False [oldRow, newRow] (Some (asc ''1,2'')) =
     (JsonDetails [(oldRow, asc ''old preview'', []), (newRow, asc ''raw blob'', [])],
      [SelectBatch [1, 2] False]) \<and>
   parsedBody demoApi newRow = ([], []) \<and> truthyStr (eml_content newRow) \<and>
   the (eml_content newRow) = asc ''raw blob'' \<and>
   parsedBody demoApi oldRow = ([], []) \<and> \<not> truthyStr (eml_content oldRow) \<and>
   truthyStr (preview oldRow) \<and> the (preview oldRow) = asc ''old preview'' \<and>
   emailDetail demoApi [] False False [oldRow, newRow] (asc ''2'') =
     (JsonDetail newRow (asc ''raw blob'') [] (asc ''/api/email/2/download''),
      [SelectDetail (asc ''2'') False, UpdateRead (asc ''2'')],
      [oldRow, newRow\<lparr>is_read := 1\<rparr>]) \<and>
   throws catchApi 0 \<and> \<not> throws catchApi 1 \<and>
   fst (emailsBatch catchApi [] False False [oldRow, newRow] (Some (asc ''1,2''))) =
     JsonRows [oldRow, newRow] \<and>
   fst (emailDetail catchApi [] False False [oldRow, newRow] (asc ''2'')) = JsonRow newRow"
proof -
  note T = body_fallback_chain [of demoApi "[]" False False "[oldRow, newRow]"
      "Some (asc ''1,2'')" "asc ''2''" newRow]
  note B = T [THEN conjunct1, rule_format]
  note S = T [THEN conjunct2, THEN conjunct2, THEN conjunct1, rule_format]
  have m: "(newRow, asc ''raw blob'', []) \<in>
      set [(oldRow, asc ''old preview'', []), (newRow, asc ''raw blob'', [])]"
    "(oldRow, asc ''old preview'', []) \<in>
      set [(oldRow, asc ''old preview'', []), (newRow, asc ''raw blob'', [])]"
    by simp_all
  have a: "asc ''raw blob'' = the (eml_content newRow)"
    using B [OF conjI [OF demo_batch conjI [OF m(1) demo_parsed(1)]]] demo_parsed(3) by blast
  have b: "asc ''old preview'' = (if truthyStr (preview oldRow) then the (preview oldRow) else [])"
    using B [OF conjI [OF demo_batch conjI [OF m(2) demo_parsed(2)]]] demo_parsed(4) by blast
  have c: "asc ''raw blob'' = the (eml_content newRow) \<and> ([]::jsstring) = []"
    using S [OF conjI [OF demo_detail_new demo_parsed(1)]] demo_parsed(3) by blast
  have f: "fst (emailsBatch catchApi [] False False [oldRow, newRow] (Some (asc ''1,2''))) =
      JsonRows [oldRow, newRow]"
    "fst (emailDetail catchApi [] False False [oldRow, newRow] (asc ''2'')) = JsonRow newRow"
    by (simp_all only: catch_batch catch_detail fst_conv)
  from a b c f demo_batch demo_parsed demo_detail_new catch_throws
  show ?thesis by blast
qed

text \<open>
  C9. The code caps the limit from above only. For the request \<open>limit=-1\<close> the list
  handler binds -1 into the statement; a datastore that reads a negative limit as no
  limit, as SQLite does, answers with every row of the mailbox, sixty of them here. For
  \<open>limit=abc\<close> the handler binds \<open>NaN\<close>.
\<close>

theorem negative_limit_unclamped:
  "listLimit demoApi (Some (asc ''-1'')) = Num (- 1) \<and>
   emailsList demoApi (sqliteList manyRows) False False (Some (asc ''a@x.io'')) (Some (asc ''-1'')) =
     (JsonRows manyRows, [MailboxLookup (asc ''a@x.io''), SelectList 7 False (Num (- 1))]) \<and>
   length manyRows = 60 \<and>
   listLimit demoApi (Some (asc ''abc'')) = NaN"
proof -
  have l: "listLimit demoApi (Some (asc ''-1'')) = Num (- 1)"
    "listLimit demoApi (Some (asc ''abc'')) = NaN"
    by (simp_all add: listLimit_def minus_one not_a_number mathMin50_def) (simp_all add: asc_def)
  have t: "trim (asc ''a@x.io'') = asc ''a@x.io''" "asc ''a@x.io'' \<noteq> []"
    by (simp_all add: trim_def asc_def isSpace_def)
  have e: "extractEmail demoApi = (\<lambda>s. s)" "toLowerCase demoApi = (\<lambda>s. s)"
    "throws demoApi = (\<lambda>_. False)" "getMailboxIdByAddress demoApi = (\<lambda>_. Some 7)"
    by (simp_all add: demoApi_def)
  have "emailsList demoApi (sqliteList manyRows) False False (Some (asc ''a@x.io''))
          (Some (asc ''-1'')) =
     (JsonRows manyRows, [MailboxLookup (asc ''a@x.io''), SelectList 7 False (Num (- 1))])"
    by (simp add: emailsList_def Let_def e t l sqliteList_def manyRows_mailbox)
  with l manyRows_length show ?thesis by simp
qed

text \<open>
  C10. When the single-message handler answers with the message, the table afterwards
  is the table before with \<open>is_read\<close> set to 1 in the rows whose key the datastore
  matches with the requested id (the table is untouched in mock mode): it has the same
  rows in the same order, every other row is as before, and a matching row differs in
  \<open>is_read\<close> only. Every writing statement the handler sent is that update.
\<close>

theorem detail_read_marks_only_is_read:
  assumes "emailDetail env cutoff isMock mbo rows emailId = (resp, tr, rows')"
    and "isSuccess resp"
  shows "rows' = (if isMock then rows else markRead env emailId rows) \<and>
         (\<forall>q \<in> set tr. isWrite q \<longrightarrow> q = UpdateRead emailId) \<and>
         length rows' = length rows \<and>
         (\<forall>i < length rows.
            rows' ! i = (if \<not> isMock \<and> idEq env emailId (row_id (rows ! i))
                         then (rows ! i)\<lparr>is_read := 1\<rparr> else rows ! i))"
proof -
  from emailDetail_effect [OF assms(1)] assms(2)
  have r: "rows' = (if isMock then rows else markRead env emailId rows)"
    and w: "\<forall>q \<in> set tr. isWrite q \<longrightarrow> q = UpdateRead emailId"
    by blast+
  from r have "length rows' = length rows" by (simp add: markRead_length)
  moreover from r have "\<forall>i < length rows.
            rows' ! i = (if \<not> isMock \<and> idEq env emailId (row_id (rows ! i))
                         then (rows ! i)\<lparr>is_read := 1\<rparr> else rows ! i)"
    by (simp add: markRead_nth)
  ultimately show ?thesis using r w by blast
qed

theorem detail_read_marks_only_is_read_witness:
  "emailDetail demoApi [] False False [oldRow, newRow] (asc ''2'') =
     (JsonDetail newRow (asc ''raw blob'') [] (asc ''/api/email/2/download''),
      [SelectDetail (asc ''2'') False, UpdateRead (asc ''2'')],
      [oldRow, newRow\<lparr>is_read := 1\<rparr>]) \<and>
   isSuccess (JsonDetail newRow (asc ''raw blob'') [] (asc ''/api/email/2/download'')) \<and>
   [oldRow, newRow\<lparr>is_read := 1\<rparr>] = markRead demoApi (asc ''2'') [oldRow, newRow] \<and>
   isWrite (UpdateRead (asc ''2'')) \<and> \<not> isWrite (SelectDetail (asc ''2'') False) \<and>
   [oldRow, newRow\<lparr>is_read := 1\<rparr>] ! 0 = oldRow \<and>
   [oldRow, newRow\<lparr>is_read := 1\<rparr>] ! 1 = newRow\<lparr>is_read := 1\<rparr>"
proof -
  have s: "isSuccess (JsonDetail newRow (asc ''raw blob'') [] (asc ''/api/email/2/download''))"
    by simp
  from detail_read_marks_only_is_read [OF demo_detail_new s]
  have m: "[oldRow, newRow\<lparr>is_read := 1\<rparr>] = markRead demoApi (asc ''2'') [oldRow, newRow]"
    by simp
  have n: "[oldRow, newRow\<lparr>is_read := 1\<rparr>] ! 0 = oldRow \<and>
           [oldRow, newRow\<lparr>is_read := 1\<rparr>] ! 1 = newRow\<lparr>is_read := 1\<rparr>"
    by simp
  have w: "isWrite (UpdateRead (asc ''2'')) \<and> \<not> isWrite (SelectDetail (asc ''2'') False)"
    by (simp add: isWrite_def)
  from demo_detail_new s m n w show ?thesis by blast
qed

text \<open>
  C2 as stated fails: a subject may hold line breaks, and the builder copies it into the
  header block as it is. With an empty line in the subject the parser ends the headers
  there, and the text it returns is the rest of the subject followed by the remaining
  headers and the body.
\<close>

theorem round_trip_counterexample:
  \<open>asc ''Hello'' \<noteq> [] \<and>
   fst (parseBody idCodec
         (buildEml (asc ''a@x.io'') (asc ''b@y.io'') (asc ''Hey'' @ CRLF @ CRLF @ asc ''you'')
            (asc ''Tue, 03 Nov 2026 11:00:00 GMT'') (asc ''mf-1'') (asc ''Hello'') [])) =
     asc ''you'' @ CRLF @ asc ''Date: Tue, 03 Nov 2026 11:00:00 GMT'' @ CRLF @
     asc ''MIME-Version: 1.0'' @ CRLF @
     asc ''Content-Type: text/plain; charset="utf-8"'' @ CRLF @
     asc ''Content-Transfer-Encoding: 8bit'' @ CRLF @ CRLF @ asc ''Hello'' @ CRLF \<and>
   eolNormalize (fst (parseBody idCodec
         (buildEml (asc ''a@x.io'') (asc ''b@y.io'') (asc ''Hey'' @ CRLF @ CRLF @ asc ''you'')
            (asc ''Tue, 03 Nov 2026 11:00:00 GMT'') (asc ''mf-1'') (asc ''Hello'') []))) \<noteq>
     eolNormalize (asc ''Hello'')\<close>
proof -
  have \<open>eolNormalize (asc ''you'' @ CRLF @ asc ''Date: Tue, 03 Nov 2026 11:00:00 GMT'' @ CRLF @
      asc ''MIME-Version: 1.0'' @ CRLF @
      asc ''Content-Type: text/plain; charset="utf-8"'' @ CRLF @
      asc ''Content-Transfer-Encoding: 8bit'' @ CRLF @ CRLF @ asc ''Hello'' @ CRLF) \<noteq>
     eolNormalize (asc ''Hello'')\<close>
    by (simp add: eolNormalize_def asc_def CRLF_def CR_def LF_def)
  moreover have "asc ''Hello'' \<noteq> []" by (simp add: asc_def)
  ultimately show ?thesis
    using injected_parse by (simp only: injected_def fst_conv simp_thms)
qed

text \<open>
  C2, as the builder and the parser have it. When the html is empty and the sender, the
  recipient, the subject and the date hold no line feed, the parser returns, for the
  envelope the builder produced, the text followed by the CRLF the builder put after it
  (equal to the text modulo line-ending normalization) and the empty html, whatever the
  text is.
\<close>

theorem single_part_round_trip:
  assumes "html = []"
    and "LF \<notin> set sndr" and "LF \<notin> set mbox" and "LF \<notin> set subj" and "LF \<notin> set dt"
  shows "parseBody cd (buildEml sndr mbox subj dt bnd text html) = (text @ CRLF, []) \<and>
         eolNormalize (fst (parseBody cd (buildEml sndr mbox subj dt bnd text html))) =
           eolNormalize text \<and>
         snd (parseBody cd (buildEml sndr mbox subj dt bnd text html)) = []"
  using parse_single [OF assms(2-5), of cd bnd "text"] assms(1)
  by (simp add: eolNormalize_CRLF)

theorem single_part_round_trip_witness:
  "([]::jsstring) = [] \<and> LF \<notin> set (asc ''a@x.io'') \<and> LF \<notin> set (asc ''b@y.io'') \<and>
   LF \<notin> set (asc ''Hey'') \<and> LF \<notin> set (asc ''Tue, 03 Nov 2026 11:00:00 GMT'') \<and>
   parseBody idCodec (buildEml (asc ''a@x.io'') (asc ''b@y.io'') (asc ''Hey'')
       (asc ''Tue, 03 Nov 2026 11:00:00 GMT'') (asc ''mf-1'') (asc ''Hello'') []) =
     (asc ''Hello'' @ CRLF, []) \<and>
   eolNormalize (asc ''Hello'' @ CRLF) = eolNormalize (asc ''Hello'')"
proof -
  have h: "LF \<notin> set (asc ''a@x.io'')" "LF \<notin> set (asc ''b@y.io'')"
    "LF \<notin> set (asc ''Hey'')" "LF \<notin> set (asc ''Tue, 03 Nov 2026 11:00:00 GMT'')"
    by (simp_all add: asc_def LF_def)
  have e: "([]::jsstring) = []" by simp
  from single_part_round_trip [OF e h, of idCodec "asc ''mf-1''" "asc ''Hello''"]
  have "parseBody idCodec (buildEml (asc ''a@x.io'') (asc ''b@y.io'') (asc ''Hey'')
       (asc ''Tue, 03 Nov 2026 11:00:00 GMT'') (asc ''mf-1'') (asc ''Hello'') []) =
     (asc ''Hello'' @ CRLF, []) \<and>
     eolNormalize (fst (parseBody idCodec (buildEml (asc ''a@x.io'') (asc ''b@y.io'') (asc ''Hey'')
       (asc ''Tue, 03 Nov 2026 11:00:00 GMT'') (asc ''mf-1'') (asc ''Hello'') []))) =
       eolNormalize (asc ''Hello'')"
    by blast
  then have "parseBody idCodec (buildEml (asc ''a@x.io'') (asc ''b@y.io'') (asc ''Hey'')
       (asc ''Tue, 03 Nov 2026 11:00:00 GMT'') (asc ''mf-1'') (asc ''Hello'') []) =
     (asc ''Hello'' @ CRLF, []) \<and>
     eolNormalize (asc ''Hello'' @ CRLF) = eolNormalize (asc ''Hello'')"
    by (metis fst_conv)
  with h e show ?thesis by blast
qed

end
